theory Spec2Isabelle
  imports Complex_Main "HOL-Library.Word" "HOL-Library.Log_Nat"
begin

unbundle bit_operations_syntax

section \<open>Data model\<close>

text \<open>
  The engine computes in single-precision floats. Here they are idealised to the
  reals: rounding, infinities and NaN are outside the model, and the statements on this
  model are about the exact arithmetic the source writes down. The one exception is the
  accumulator of the frame scheduler: how often the fixed step runs depends on rounding,
  so its arithmetic is modelled a second time, in binary32, in a section of its own. Pointers to GameObjects are
  natural numbers into an object store; a null pointer is \<open>None\<close>.
\<close>

type_synonym vec3 = "real \<times> real \<times> real"
type_synonym vec4 = "real \<times> real \<times> real \<times> real"

text \<open>\<open>glm::vec3\<close> addition and \<open>glm::mix\<close> (linear blend \<open>x * (1 - a) + y * a\<close>).\<close>

fun vadd :: "vec3 \<Rightarrow> vec3 \<Rightarrow> vec3" where
  "vadd (x1, y1, z1) (x2, y2, z2) = (x1 + x2, y1 + y2, z1 + z2)"

fun vscale :: "vec3 \<Rightarrow> real \<Rightarrow> vec3" where
  "vscale (x, y, z) k = (x * k, y * k, z * k)"

definition mix :: "real \<Rightarrow> real \<Rightarrow> real \<Rightarrow> real" where
  "mix x y a = x * (1 - a) + y * a"

fun mix3 :: "vec3 \<Rightarrow> vec3 \<Rightarrow> real \<Rightarrow> vec3" where
  "mix3 (x1, y1, z1) (x2, y2, z2) a = (mix x1 x2 a, mix y1 y2 a, mix z1 z2 a)"

text \<open>\<open>class Component\<close>: the back-reference to the owner and the enabled flag.\<close>

record Component =
  owner :: "nat option"
  enabled :: bool

text \<open>\<open>enum CollisionLayer : uint32_t\<close>.\<close>

definition LayerNone :: "32 word" where "LayerNone = 0"
definition LayerPlayer :: "32 word" where "LayerPlayer = push_bit 0 1"
definition LayerGround :: "32 word" where "LayerGround = push_bit 1 1"
definition LayerWall :: "32 word" where "LayerWall = push_bit 2 1"
definition LayerEnemy :: "32 word" where "LayerEnemy = push_bit 3 1"
definition LayerPickup :: "32 word" where "LayerPickup = push_bit 4 1"
definition LayerTrigger :: "32 word" where "LayerTrigger = push_bit 5 1"
definition LayerAll :: "32 word" where "LayerAll = 0xFFFFFFFF"

datatype CollisionShapeType = Box | Sphere | Capsule | Mesh

record Collider = Component +
  shapeType :: CollisionShapeType
  center :: vec3
  size :: vec3
  radius :: real
  height :: real
  meshPath :: string
  collisionLayer :: "32 word"
  collisionMask :: "32 word"
  isTrigger :: bool

record Rigidbody = Component +
  mass :: real
  restitution :: real
  friction :: real
  useGravity :: bool
  isKinematic :: bool
  isGrounded :: bool
  groundNormal :: vec3
  previousPosition :: vec3
  currentPosition :: vec3

text \<open>\<open>class MeshComponent\<close>: the mesh is referenced by name.\<close>

record MeshComponent = Component +
  meshName :: string
  color :: vec4

text \<open>
  The components the engine tells apart. \<open>dynamic_cast<T*>\<close> succeeds on exactly the
  constructor of \<open>T\<close>.
\<close>

datatype SceneComponent =
    RigidbodyC Rigidbody
  | ColliderC Collider
  | MeshC MeshComponent
  | OtherC Component

text \<open>
  \<open>class GameObject\<close> with its own component list. A list holds the values of the
  components at the time it is read; the frame scheduler writes Rigidbody fields only
  through the scene's list.
\<close>

record GameObject =
  name :: string
  active :: bool
  position :: vec3
  rotation :: vec3
  goComponents :: "SceneComponent list"

text \<open>\<open>GameObject::getComponent<T>()\<close>: the first component of type \<open>T\<close>, or null.\<close>

fun getRigidbody :: "SceneComponent list \<Rightarrow> Rigidbody option" where
  "getRigidbody [] = None"
| "getRigidbody (c # cs) = (case c of RigidbodyC rb \<Rightarrow> Some rb | _ \<Rightarrow> getRigidbody cs)"

fun getCollider :: "SceneComponent list \<Rightarrow> Collider option" where
  "getCollider [] = None"
| "getCollider (c # cs) = (case c of ColliderC col \<Rightarrow> Some col | _ \<Rightarrow> getCollider cs)"

fun getMeshComponent :: "SceneComponent list \<Rightarrow> MeshComponent option" where
  "getMeshComponent [] = None"
| "getMeshComponent (c # cs) = (case c of MeshC mc \<Rightarrow> Some mc | _ \<Rightarrow> getMeshComponent cs)"

text \<open>
  \<open>class Scene\<close>: the component list, the object list (pointers, in scene order) and the
  store the pointers refer to.
\<close>

record Scene =
  components :: "SceneComponent list"
  gameObjects :: "nat list"
  objects :: "nat \<Rightarrow> GameObject"

definition setPosition :: "nat \<Rightarrow> vec3 \<Rightarrow> Scene \<Rightarrow> Scene" where
  "setPosition ob p sc = sc\<lparr>objects := (objects sc)(ob := (objects sc ob)\<lparr>position := p\<rparr>)\<rparr>"

section \<open>Layer filtering\<close>

text \<open>\<open>Collider::shouldCollideWith\<close>; the argument is a pointer and may be null.\<close>

definition shouldCollideWith :: "Collider \<Rightarrow> Collider option \<Rightarrow> bool" where
  "shouldCollideWith this other =
     (case other of
        None \<Rightarrow> False
      | Some ot \<Rightarrow>
          (let thisInOtherMask = (collisionLayer this AND collisionMask ot \<noteq> 0);
               otherInThisMask = (collisionLayer ot AND collisionMask this \<noteq> 0)
           in thisInOtherMask \<and> otherInThisMask))"

section \<open>Collision and physics adapter\<close>

text \<open>
  The physics library is a black box. Of a body the adapter passes on its creation
  settings; the library's part is a parameter wherever the adapter calls it.
\<close>

datatype EMotionType = Static | Kinematic | Dynamic

datatype ObjectLayer = NON_MOVING | MOVING

datatype EActivation = Activate | DontActivate

datatype Shape =
    BoxShape vec3
  | SphereShape real
  | CapsuleShape real real
  | MeshShape string

record BodyCreationSettings =
  mShape :: Shape
  mPosition :: vec3
  mRotation :: vec3
  mMotionType :: EMotionType
  mObjectLayer :: ObjectLayer
  mFriction :: real
  mRestitution :: real
  mLinearDamping :: real
  mAngularDamping :: real
  mGravityFactor :: real
  mMassOverride :: "real option"
  mTranslationOnly :: bool
  mIsSensor :: bool

text \<open>
  The shape switch of \<open>createBody\<close>. \<open>meshBuilds path\<close> says whether loading the file,
  collecting its triangles and creating the mesh shape all succeed; every failure falls
  back to the box.
\<close>

definition buildShape :: "(string \<Rightarrow> bool) \<Rightarrow> Collider \<Rightarrow> Shape" where
  "buildShape meshBuilds collider =
     (case shapeType collider of
        Box \<Rightarrow> BoxShape (vscale (size collider) (1 / 2))
      | Sphere \<Rightarrow> SphereShape (radius collider)
      | Capsule \<Rightarrow> CapsuleShape (height collider * (1 / 2)) (radius collider)
      | Mesh \<Rightarrow>
          if meshPath collider = [] then BoxShape (vscale (size collider) (1 / 2))
          else if meshBuilds (meshPath collider) then MeshShape (meshPath collider)
          else BoxShape (vscale (size collider) (1 / 2)))"

text \<open>The \<open>if / else if / else\<close> that determines the motion type.\<close>

definition determineMotionType :: "Rigidbody option \<Rightarrow> EMotionType" where
  "determineMotionType rigidbody =
     (case rigidbody of
        None \<Rightarrow> Static
      | Some rb \<Rightarrow> if isKinematic rb then Kinematic else Dynamic)"

text \<open>
  The settings \<open>createBody\<close> hands to the library; \<open>defaults\<close> are the fields of a freshly
  constructed \<open>JPH::BodyCreationSettings\<close>. The rotation is kept as the owner's Euler
  angles, which the source converts to a quaternion.
\<close>

definition bodySettings ::
  "(string \<Rightarrow> bool) \<Rightarrow> BodyCreationSettings \<Rightarrow> GameObject \<Rightarrow> Collider \<Rightarrow> Rigidbody option
     \<Rightarrow> BodyCreationSettings" where
  "bodySettings meshBuilds defaults ownerObj collider rigidbody =
     (let motionType = determineMotionType rigidbody;
          objectLayer = (if motionType = Static then NON_MOVING else MOVING);
          s0 = defaults\<lparr>mShape := buildShape meshBuilds collider,
                 mPosition := vadd (position ownerObj) (center collider),
                 mRotation := rotation ownerObj,
                 mMotionType := motionType,
                 mObjectLayer := objectLayer\<rparr>;
          s1 = (case rigidbody of
                  Some rb \<Rightarrow>
                    (let s = s0\<lparr>mFriction := friction rb, mRestitution := restitution rb\<rparr>
                     in if motionType = Dynamic
                        then s\<lparr>mLinearDamping := 5 / 100, mAngularDamping := 5 / 100,
                               mGravityFactor := (if useGravity rb then 1 else 0),
                               mMassOverride := Some (mass rb),
                               mTranslationOnly := True\<rparr>
                        else s)
                | None \<Rightarrow> s0\<lparr>mFriction := 1 / 2, mRestitution := 0\<rparr>)
      in s1\<lparr>mIsSensor := isTrigger collider\<rparr>)"

text \<open>
  \<open>CollisionSystem::createBody\<close>. \<open>libCreateBody\<close> is the library's \<open>CreateBody\<close>
  (\<open>None\<close> for a null body). The result is \<open>None\<close> for an invalid \<open>BodyID\<close>, otherwise
  the id with the settings and the activation of the body added to the physics system.
\<close>

definition createBody ::
  "(string \<Rightarrow> bool) \<Rightarrow> BodyCreationSettings \<Rightarrow> (BodyCreationSettings \<Rightarrow> nat option)
     \<Rightarrow> (nat \<Rightarrow> GameObject) \<Rightarrow> Collider option \<Rightarrow> Rigidbody option
     \<Rightarrow> (nat \<times> BodyCreationSettings \<times> EActivation) option" where
  "createBody meshBuilds defaults libCreateBody store collider rigidbody =
     (case collider of
        None \<Rightarrow> None
      | Some col \<Rightarrow>
          (case owner col of
             None \<Rightarrow> None
           | Some ob \<Rightarrow>
               (let settings = bodySettings meshBuilds defaults (store ob) col rigidbody
                in case libCreateBody settings of
                     None \<Rightarrow> None
                   | Some bodyID \<Rightarrow>
                       Some (bodyID, settings,
                             if mMotionType settings = Static then DontActivate else Activate))))"

text \<open>
  What \<open>CollisionSystem::initialize\<close> does for one collider with an owner: the sibling
  Rigidbody is looked up on the owner and passed to \<open>createBody\<close>.
\<close>

definition initializeCollider ::
  "(string \<Rightarrow> bool) \<Rightarrow> BodyCreationSettings \<Rightarrow> (BodyCreationSettings \<Rightarrow> nat option)
     \<Rightarrow> (nat \<Rightarrow> GameObject) \<Rightarrow> Collider \<Rightarrow> (nat \<times> BodyCreationSettings \<times> EActivation) option" where
  "initializeCollider meshBuilds defaults libCreateBody store collider =
     (case owner collider of
        None \<Rightarrow> None
      | Some ob \<Rightarrow>
          createBody meshBuilds defaults libCreateBody store (Some collider)
            (getRigidbody (goComponents (store ob))))"

text \<open>
  Raycasts. The library's narrow-phase query is \<open>castRay\<close> (origin, direction scaled by
  the maximum distance); \<open>surfaceNormal\<close> is the locked body's world-space normal at a
  point, \<open>None\<close> when the lock fails.
\<close>

record RayCastResult =
  mBodyID :: nat
  mFraction :: real

record PhysicsQuery =
  castRay :: "vec3 \<Rightarrow> vec3 \<Rightarrow> RayCastResult option"
  surfaceNormal :: "nat \<Rightarrow> vec3 \<Rightarrow> vec3 option"

record RaycastHit =
  hit :: bool
  point :: vec3
  normal :: vec3
  distance :: real
  object :: "nat option"

definition noHit :: RaycastHit where
  "noHit = \<lparr>hit = False, point = (0, 0, 0), normal = (0, 0, 0), distance = 0, object = None\<rparr>"

fun vlength :: "vec3 \<Rightarrow> real" where
  "vlength (x, y, z) = sqrt (x * x + y * y + z * z)"

text \<open>
  \<open>glm::normalize\<close>. On the zero vector the source divides by zero and continues with
  NaN; that case is \<open>None\<close> here.
\<close>

definition normalize :: "vec3 \<Rightarrow> vec3 option" where
  "normalize v = (if vlength v = 0 then None else Some (vscale v (1 / vlength v)))"

text \<open>
  \<open>CollisionSystem::raycast\<close>; \<open>bodyToGameObject\<close> is the adapter's map from body ids to
  objects. The first statement of the source is \<open>(void)layerMask\<close>.
\<close>

definition raycast ::
  "PhysicsQuery \<Rightarrow> (nat \<rightharpoonup> nat) \<Rightarrow> vec3 \<Rightarrow> vec3 \<Rightarrow> real \<Rightarrow> 32 word \<Rightarrow> RaycastHit option" where
  "raycast q bodyToGameObject origin direction maxDistance layerMask =
     (case normalize direction of
        None \<Rightarrow> None
      | Some normalizedDir \<Rightarrow>
          (let rayDirection = vscale normalizedDir maxDistance
           in case castRay q origin rayDirection of
                None \<Rightarrow> Some noHit
              | Some result \<Rightarrow>
                  (let d = mFraction result * maxDistance;
                       h = noHit\<lparr>hit := True, distance := d,
                                 point := vadd origin (vscale normalizedDir d),
                                 object := bodyToGameObject (mBodyID result)\<rparr>
                   in case surfaceNormal q (mBodyID result)
                             (vadd origin (vscale rayDirection (mFraction result))) of
                        None \<Rightarrow> Some h
                      | Some nrm \<Rightarrow> Some (h\<lparr>normal := nrm\<rparr>))))"

text \<open>
  \<open>CollisionSystem::checkGrounded\<close>. Besides the returned flag the result carries the
  object's Rigidbody as the call leaves it (\<open>None\<close> when the object has none).
\<close>

definition checkGrounded ::
  "PhysicsQuery \<Rightarrow> (nat \<rightharpoonup> nat) \<Rightarrow> (nat \<Rightarrow> GameObject) \<Rightarrow> nat option \<Rightarrow> real
     \<Rightarrow> bool \<times> Rigidbody option" where
  "checkGrounded q bodyToGameObject store obj groundDistance =
     (case obj of
        None \<Rightarrow> (False, None)
      | Some ob \<Rightarrow>
          (let rb = getRigidbody (goComponents (store ob))
           in case getCollider (goComponents (store ob)) of
                None \<Rightarrow> (False, rb)
              | Some collider \<Rightarrow>
                  (let origin = vadd (position (store ob)) (center collider)
                   in case raycast q bodyToGameObject origin (0, 0, - 1) groundDistance LayerGround of
                        None \<Rightarrow> (False, rb)
                      | Some h \<Rightarrow>
                          if hit h
                          then (True, map_option (\<lambda>r. r\<lparr>isGrounded := True, groundNormal := normal h\<rparr>) rb)
                          else (False, rb))))"

section \<open>Render pipeline\<close>

text \<open>
  The renderer records passes into a command encoder; here a pass is a record of its
  attachments, its pipeline and the draws recorded in it, and the encoder is the list of
  passes. A draw does not carry uniform data: the renderer writes the uniforms of a mesh
  into that mesh's one uniform buffer with \<open>queue.writeBuffer\<close>, and the draw reads the
  buffer when the submitted command buffer executes. The model keeps the writes and the
  recorded draws in program order and does not execute them: what a buffer holds when a
  draw reads it is outside the model.
\<close>

record RendererMesh =
  mesh_name :: string
  vertexCount :: int

datatype LoadOp = Clear | Load

datatype TargetView = SilhouetteView | ColorView | SwapChainView nat

datatype Pipeline =
    SilhouettePipeline
  | MainPipeline
  | OutlineComposePipeline
  | DebugPipeline
  | ImGuiPipeline
  | BlitPipeline

text \<open>
  \<open>WriteUniforms nm ob c\<close> is the \<open>writeBuffer\<close> into the uniform buffer of mesh \<open>nm\<close>,
  with the world transform of object \<open>ob\<close> as model matrix and the colour \<open>c\<close>.
\<close>

datatype QueueWrite = WriteUniforms string nat vec4

text \<open>
  \<open>DrawMesh ob nm n\<close> is the recorded draw of \<open>n\<close> vertices of mesh \<open>nm\<close> (bound with that
  mesh's bind group) for object \<open>ob\<close>; \<open>DrawVertices n\<close> is \<open>draw(n, 1, 0, 0)\<close> without a
  mesh.
\<close>

datatype Draw =
    DrawMesh nat string int
  | DrawVertices nat

record RenderPass =
  colorView :: TargetView
  colorLoadOp :: LoadOp
  colorClearValue :: "vec4 option"
  depthLoadOp :: "LoadOp option"
  stencilLoadOp :: "LoadOp option"
  pipeline :: Pipeline
  draws :: "Draw list"

text \<open>\<open>Renderer::getMeshByName\<close>: the first mesh of that name, or null.\<close>

fun getMeshByName :: "RendererMesh list \<Rightarrow> string \<Rightarrow> RendererMesh option" where
  "getMeshByName [] nm = None"
| "getMeshByName (mesh # meshes) nm =
     (if mesh_name mesh = nm then Some mesh else getMeshByName meshes nm)"

text \<open>
  The object loop of \<open>renderSilhouettePass\<close>, with its counter \<open>objectIndex\<close>; each of
  the three \<open>continue\<close> statements skips the object without advancing the counter. For
  every other object the loop writes the mesh's uniforms and then records the draw; the
  result lists these pairs in program order.
\<close>

fun silhouetteLoop ::
  "RendererMesh list \<Rightarrow> (nat \<Rightarrow> GameObject) \<Rightarrow> nat \<Rightarrow> nat list
     \<Rightarrow> (QueueWrite \<times> Draw) list" where
  "silhouetteLoop meshes store objectIndex [] = []"
| "silhouetteLoop meshes store objectIndex (ob # obs) =
     (if \<not> active (store ob) then silhouetteLoop meshes store objectIndex obs
      else case getMeshComponent (goComponents (store ob)) of
        None \<Rightarrow> silhouetteLoop meshes store objectIndex obs
      | Some meshComp \<Rightarrow>
          if \<not> enabled meshComp then silhouetteLoop meshes store objectIndex obs
          else case getMeshByName meshes (meshName meshComp) of
            None \<Rightarrow> silhouetteLoop meshes store objectIndex obs
          | Some meshData \<Rightarrow>
              (WriteUniforms (mesh_name meshData) ob (real (objectIndex + 1) / 255, 0, 0, 1),
               DrawMesh ob (mesh_name meshData) (vertexCount meshData))
              # silhouetteLoop meshes store (objectIndex + 1) obs)"

definition renderSilhouettePass ::
  "RendererMesh list \<Rightarrow> (nat \<Rightarrow> GameObject) \<Rightarrow> nat list \<Rightarrow> RenderPass" where
  "renderSilhouettePass meshes store obs =
     \<lparr>colorView = SilhouetteView, colorLoadOp = Clear, colorClearValue = Some (0, 0, 0, 1),
      depthLoadOp = Some Clear, stencilLoadOp = Some Clear, pipeline = SilhouettePipeline,
      draws = map snd (silhouetteLoop meshes store 0 obs)\<rparr>"

text \<open>
  The fragment stage of \<open>silhouette.wgsl\<close> for the uniform colour the buffer holds when
  the draw executes: its red component, the has-object flag, depth, opaque.
\<close>

definition silhouette_fs_main :: "vec4 \<Rightarrow> real \<Rightarrow> vec4" where
  "silhouette_fs_main uniformColor z = (fst uniformColor, 1, z, 1)"

text \<open>The object loop of \<open>renderMainPass\<close>.\<close>

fun mainLoop ::
  "RendererMesh list \<Rightarrow> (nat \<Rightarrow> GameObject) \<Rightarrow> nat list \<Rightarrow> (QueueWrite \<times> Draw) list" where
  "mainLoop meshes store [] = []"
| "mainLoop meshes store (ob # obs) =
     (if \<not> active (store ob) then mainLoop meshes store obs
      else case getMeshComponent (goComponents (store ob)) of
        None \<Rightarrow> mainLoop meshes store obs
      | Some meshComp \<Rightarrow>
          if \<not> enabled meshComp then mainLoop meshes store obs
          else case getMeshByName meshes (meshName meshComp) of
            None \<Rightarrow> mainLoop meshes store obs
          | Some meshData \<Rightarrow>
              (WriteUniforms (mesh_name meshData) ob (color meshComp),
               DrawMesh ob (mesh_name meshData) (vertexCount meshData))
              # mainLoop meshes store obs)"

definition renderMainPass ::
  "RendererMesh list \<Rightarrow> (nat \<Rightarrow> GameObject) \<Rightarrow> nat list \<Rightarrow> RenderPass" where
  "renderMainPass meshes store obs =
     \<lparr>colorView = ColorView, colorLoadOp = Clear,
      colorClearValue = Some (1 / 100000, 3 / 10000, 5 / 10000, 1),
      depthLoadOp = Some Clear, stencilLoadOp = Some Clear, pipeline = MainPipeline,
      draws = map snd (mainLoop meshes store obs)\<rparr>"

definition renderOutlineComposePass :: RenderPass where
  "renderOutlineComposePass =
     \<lparr>colorView = ColorView, colorLoadOp = Load, colorClearValue = None,
      depthLoadOp = None, stencilLoadOp = None, pipeline = OutlineComposePipeline,
      draws = [DrawVertices 6]\<rparr>"

text \<open>
  \<open>renderDebugPass\<close> for a number of debug lines (no pass when there is none) and
  \<open>renderUIPass\<close> for the draws the UI callback produces.
\<close>

definition renderDebugPass :: "nat \<Rightarrow> RenderPass list" where
  "renderDebugPass lines =
     (if lines = 0 then []
      else [\<lparr>colorView = ColorView, colorLoadOp = Load, colorClearValue = None,
              depthLoadOp = None, stencilLoadOp = None, pipeline = DebugPipeline,
              draws = [DrawVertices (lines * 2)]\<rparr>])"

definition renderUIPass :: "Draw list \<Rightarrow> RenderPass" where
  "renderUIPass uiDraws =
     \<lparr>colorView = ColorView, colorLoadOp = Load, colorClearValue = None,
      depthLoadOp = None, stencilLoadOp = None, pipeline = ImGuiPipeline, draws = uiDraws\<rparr>"

text \<open>
  \<open>renderBlitPass\<close>; \<open>swapView\<close> is what \<open>getCurrentTextureView\<close> returns, null when
  the surface texture cannot be acquired.
\<close>

definition renderBlitPass :: "nat option \<Rightarrow> RenderPass list" where
  "renderBlitPass swapView =
     (case swapView of
        None \<Rightarrow> []
      | Some v \<Rightarrow>
          [\<lparr>colorView = SwapChainView v, colorLoadOp = Clear, colorClearValue = None,
            depthLoadOp = None, stencilLoadOp = None, pipeline = BlitPipeline,
            draws = [DrawVertices 6]\<rparr>])"

text \<open>
  \<open>Renderer::renderScene\<close>: \<open>None\<close> when the scene is null, otherwise the passes of the
  command buffer that is submitted and presented. \<open>debugLines\<close> is \<open>None\<close> when collision
  debug drawing is off, \<open>uiCallback\<close> is \<open>None\<close> for an empty callback.
\<close>

definition renderScene ::
  "RendererMesh list \<Rightarrow> Scene option \<Rightarrow> nat option \<Rightarrow> Draw list option \<Rightarrow> nat option
     \<Rightarrow> RenderPass list option" where
  "renderScene meshes scene debugLines uiCallback swapView =
     (case scene of
        None \<Rightarrow> None
      | Some sc \<Rightarrow>
          Some ([renderSilhouettePass meshes (objects sc) (gameObjects sc),
                 renderMainPass meshes (objects sc) (gameObjects sc),
                 renderOutlineComposePass]
                @ (case debugLines of None \<Rightarrow> [] | Some lines \<Rightarrow> renderDebugPass lines)
                @ (case uiCallback of None \<Rightarrow> [] | Some uiDraws \<Rightarrow> [renderUIPass uiDraws])
                @ renderBlitPass swapView))"






subsection \<open>Presentation shader\<close>

record ZoomUniforms =
  zoom :: real
  centerX :: real
  centerY :: real

text \<open>WGSL \<open>clamp(e, 0.0, 1.0)\<close>, which is \<open>min(max(e, 0.0), 1.0)\<close>.\<close>

definition clamp01 :: "real \<Rightarrow> real" where
  "clamp01 x = min (max x 0) 1"

text \<open>
  The remapped coordinate of \<open>blit.wgsl\<close>. At zoom 0 the shader divides by zero; that
  case is \<open>None\<close>.
\<close>

definition zoomedUV :: "ZoomUniforms \<Rightarrow> real \<times> real \<Rightarrow> (real \<times> real) option" where
  "zoomedUV zoomParams uv =
     (if zoom zoomParams = 0 then None
      else
        (let invZoom = 1 / zoom zoomParams;
             uvOffsetX = centerX zoomParams - invZoom * (1 / 2);
             uvOffsetY = centerY zoomParams - invZoom * (1 / 2)
         in Some (clamp01 (fst uv * invZoom + uvOffsetX), clamp01 (snd uv * invZoom + uvOffsetY))))"

text \<open>Conversion of \<open>f32\<close> to \<open>i32\<close>: truncation towards zero.\<close>

definition truncate_i32 :: "real \<Rightarrow> int" where
  "truncate_i32 x = (if 0 \<le> x then \<lfloor>x\<rfloor> else \<lceil>x\<rceil>)"

text \<open>
  \<open>fs_main\<close> of \<open>blit.wgsl\<close>. \<open>textureLoad\<close> is the texel fetch of the bound texture at
  integer coordinates, \<open>texSize\<close> its dimensions.
\<close>

definition blit_fs_main ::
  "(int \<times> int \<Rightarrow> vec4) \<Rightarrow> nat \<times> nat \<Rightarrow> ZoomUniforms \<Rightarrow> real \<times> real \<Rightarrow> vec4 option" where
  "blit_fs_main textureLoad texSize zoomParams uv =
     (case zoomedUV zoomParams uv of
        None \<Rightarrow> None
      | Some z \<Rightarrow>
          Some (textureLoad (truncate_i32 (fst z * real (fst texSize)),
                             truncate_i32 (snd z * real (snd texSize)))))"

subsection \<open>Outline composition shader\<close>

fun channelG :: "vec4 \<Rightarrow> real" where
  "channelG (r, g, b, a) = g"

fun channelB :: "vec4 \<Rightarrow> real" where
  "channelB (r, g, b, a) = b"

text \<open>
  The offset of neighbour \<open>i\<close>: \<open>vec2f(cos(angle), sin(angle)) * pixelSize * outlineWidth\<close>
  with \<open>pixelSize = 1.0 / vec2f(1280.0, 720.0)\<close> and \<open>outlineWidth = 0.7\<close>.
\<close>

definition outlineOffset :: "nat \<Rightarrow> real \<times> real" where
  "outlineOffset i =
     (let angle = real i * (628318 / 100000) / 8
      in (cos angle * (1 / 1280) * (7 / 10), sin angle * (1 / 720) * (7 / 10)))"

text \<open>The test in the loop body; \<open>textureSample\<close> is the sampled silhouette texture.\<close>

definition neighborDiffers :: "(real \<times> real \<Rightarrow> vec4) \<Rightarrow> real \<times> real \<Rightarrow> nat \<Rightarrow> bool" where
  "neighborDiffers textureSample uv i =
     (let center = textureSample uv;
          neighbor = textureSample (fst uv + fst (outlineOffset i), snd uv + snd (outlineOffset i))
      in \<bar>channelG center - channelG neighbor\<bar> > 1 / 2
         \<or> \<bar>channelB center - channelB neighbor\<bar> > 3 / 1000)"

text \<open>The loop \<open>for (var i = 0; i < samples; i = i + 1)\<close> with its \<open>break\<close>; its value is \<open>isEdge\<close>.\<close>

function edgeLoop :: "(real \<times> real \<Rightarrow> vec4) \<Rightarrow> real \<times> real \<Rightarrow> nat \<Rightarrow> bool" where
  "edgeLoop textureSample uv i =
     (if i < 8
      then (if neighborDiffers textureSample uv i then True
            else edgeLoop textureSample uv (i + 1))
      else False)"
  by pat_completeness auto
termination
  by (relation "measure (\<lambda>(textureSample, uv, i). 8 - i)") auto

declare edgeLoop.simps [simp del]

definition outline_fs_main :: "(real \<times> real \<Rightarrow> vec4) \<Rightarrow> real \<times> real \<Rightarrow> vec4" where
  "outline_fs_main textureSample uv =
     (if edgeLoop textureSample uv 0 then (3 / 1000, 5 / 1000, 1 / 100, 1) else (0, 0, 0, 0))"

text \<open>
  The blend state of the outline pipeline: colour \<open>SrcAlpha\<close> / \<open>OneMinusSrcAlpha\<close>,
  alpha \<open>One\<close> / \<open>Zero\<close>, both with \<open>Add\<close>.
\<close>

fun outlineBlend :: "vec4 \<Rightarrow> vec4 \<Rightarrow> vec4" where
  "outlineBlend (sr, sg, sb, sa) (dr, dg, db, da) =
     (sr * sa + dr * (1 - sa), sg * sa + dg * (1 - sa), sb * sa + db * (1 - sa),
      sa * 1 + da * 0)"

text \<open>
  The texel of the main colour target after the outline pass: the pass loads the target,
  so the destination of the blend is the texel \<open>dst\<close> the earlier passes left.
\<close>

definition outlineCompose :: "(real \<times> real \<Rightarrow> vec4) \<Rightarrow> real \<times> real \<Rightarrow> vec4 \<Rightarrow> vec4" where
  "outlineCompose textureSample uv dst = outlineBlend (outline_fs_main textureSample uv) dst"

section \<open>Frame scheduler\<close>

text \<open>
  \<open>Engine::run\<close>. The game's virtual methods and the physics adapter are the callbacks
  of \<open>Game\<close>: \<open>onUpdate\<close> is \<open>game->onUpdate\<close> (it may replace the current scene),
  \<open>componentsUpdate\<close> is what the \<open>onUpdate\<close> calls of \<open>updateScene\<close> do to the scene,
  \<open>componentsFixedUpdate\<close> what the \<open>onFixedUpdate\<close> calls of \<open>updateSceneFixed\<close> do,
  and \<open>collisionUpdate\<close> is \<open>CollisionSystem::update\<close> (the identity for a scene
  without a collision system). Rendering does not write to the engine's state and is
  left out.
\<close>

record Game =
  onUpdate :: "real \<Rightarrow> Scene option \<Rightarrow> Scene option"
  componentsUpdate :: "real \<Rightarrow> Scene \<Rightarrow> Scene"
  componentsFixedUpdate :: "real \<Rightarrow> Scene \<Rightarrow> Scene"
  collisionUpdate :: "real \<Rightarrow> Scene \<Rightarrow> Scene"

record Engine =
  lastTime :: real
  deltaTime :: real
  totalTime :: real
  accumulator :: real
  currentScene :: "Scene option"

definition fixedTimeStep :: real where
  "fixedTimeStep = 1 / 60"

text \<open>\<open>if (deltaTime <= 0.0f) deltaTime = 1.0f / 60.0f;\<close>\<close>

definition effectiveDelta :: "real \<Rightarrow> real" where
  "effectiveDelta dt = (if dt \<le> 0 then 1 / 60 else dt)"

text \<open>The test \<open>rb && rb->enabled && rb->owner && !rb->isKinematic\<close>, used three times in a frame.\<close>

definition interpolated :: "Rigidbody \<Rightarrow> bool" where
  "interpolated rb = (enabled rb \<and> owner rb \<noteq> None \<and> \<not> isKinematic rb)"

text \<open>\<open>rb->previousPosition = rb->owner->position\<close> for every such Rigidbody.\<close>

definition storePrevious1 :: "Scene \<Rightarrow> SceneComponent \<Rightarrow> SceneComponent" where
  "storePrevious1 sc c =
     (case c of
        RigidbodyC rb \<Rightarrow>
          (case owner rb of
             Some ob \<Rightarrow>
               if enabled rb \<and> \<not> isKinematic rb
               then RigidbodyC (rb\<lparr>previousPosition := position (objects sc ob)\<rparr>)
               else c
           | None \<Rightarrow> c)
      | _ \<Rightarrow> c)"

definition storePrevious :: "Scene \<Rightarrow> Scene" where
  "storePrevious sc = sc\<lparr>components := map (storePrevious1 sc) (components sc)\<rparr>"

text \<open>\<open>rb->currentPosition = rb->owner->position\<close> for every such Rigidbody.\<close>

definition storeCurrent1 :: "Scene \<Rightarrow> SceneComponent \<Rightarrow> SceneComponent" where
  "storeCurrent1 sc c =
     (case c of
        RigidbodyC rb \<Rightarrow>
          (case owner rb of
             Some ob \<Rightarrow>
               if enabled rb \<and> \<not> isKinematic rb
               then RigidbodyC (rb\<lparr>currentPosition := position (objects sc ob)\<rparr>)
               else c
           | None \<Rightarrow> c)
      | _ \<Rightarrow> c)"

definition storeCurrent :: "Scene \<Rightarrow> Scene" where
  "storeCurrent sc = sc\<lparr>components := map (storeCurrent1 sc) (components sc)\<rparr>"

text \<open>One execution of the body of \<open>while (accumulator >= fixedTimeStep)\<close> on the scene.\<close>

definition fixedStep :: "Game \<Rightarrow> Scene option \<Rightarrow> Scene option" where
  "fixedStep g cs =
     (case cs of
        None \<Rightarrow> None
      | Some sc \<Rightarrow>
          Some (storeCurrent
                 (collisionUpdate g fixedTimeStep
                   (componentsFixedUpdate g fixedTimeStep (storePrevious sc)))))"

text \<open>
  The fixed-step loop. The third component counts the executions of the loop body; it
  is not a variable of the source.
\<close>

function fixedLoop :: "Game \<Rightarrow> real \<Rightarrow> Scene option \<Rightarrow> nat \<Rightarrow> real \<times> Scene option \<times> nat" where
  "fixedLoop g acc cs n =
     (if acc \<ge> fixedTimeStep
      then fixedLoop g (acc - fixedTimeStep) (fixedStep g cs) (Suc n)
      else (acc, cs, n))"
  by pat_completeness auto
termination
proof (relation "measure (\<lambda>(g, acc, cs, n). nat \<lfloor>acc * 60\<rfloor>)")
  show "wf (measure (\<lambda>(g, acc, cs, n). nat \<lfloor>acc * 60\<rfloor>))"
    by simp
next
  fix g :: Game and acc :: real and cs :: "Scene option" and n :: nat
  assume a: "fixedTimeStep \<le> acc"
  have "\<lfloor>(acc - fixedTimeStep) * 60\<rfloor> = \<lfloor>acc * 60 - 1\<rfloor>"
    by (simp add: fixedTimeStep_def algebra_simps)
  also have "\<dots> = \<lfloor>acc * 60\<rfloor> - 1"
    by simp
  finally have e: "\<lfloor>(acc - fixedTimeStep) * 60\<rfloor> = \<lfloor>acc * 60\<rfloor> - 1" .
  from a have "1 \<le> acc * 60"
    by (simp add: fixedTimeStep_def)
  then have "1 \<le> \<lfloor>acc * 60\<rfloor>"
    by linarith
  with e show "((g, acc - fixedTimeStep, fixedStep g cs, Suc n), (g, acc, cs, n))
        \<in> measure (\<lambda>(g, acc, cs, n). nat \<lfloor>acc * 60\<rfloor>)"
    by simp
qed

declare fixedLoop.simps [simp del]

text \<open>The interpolation loop: \<open>rb->owner->position = glm::mix(previous, current, alpha)\<close>.\<close>

definition interpolate1 :: "real \<Rightarrow> SceneComponent \<Rightarrow> Scene \<Rightarrow> Scene" where
  "interpolate1 alpha c sc =
     (case c of
        RigidbodyC rb \<Rightarrow>
          (case owner rb of
             Some ob \<Rightarrow>
               if enabled rb \<and> \<not> isKinematic rb
               then setPosition ob (mix3 (previousPosition rb) (currentPosition rb) alpha) sc
               else sc
           | None \<Rightarrow> sc)
      | _ \<Rightarrow> sc)"

fun interpolateLoop :: "real \<Rightarrow> SceneComponent list \<Rightarrow> Scene \<Rightarrow> Scene" where
  "interpolateLoop alpha [] sc = sc"
| "interpolateLoop alpha (c # cs) sc = interpolateLoop alpha cs (interpolate1 alpha c sc)"

definition interpolate :: "real \<Rightarrow> Scene option \<Rightarrow> Scene option" where
  "interpolate alpha cs =
     (case cs of
        None \<Rightarrow> None
      | Some sc \<Rightarrow> Some (interpolateLoop alpha (components sc) sc))"

text \<open>The game update of a frame: \<open>game->onUpdate\<close>, then \<open>updateScene\<close> if a scene is set.\<close>

definition gameUpdate :: "Game \<Rightarrow> real \<Rightarrow> Scene option \<Rightarrow> Scene option" where
  "gameUpdate g dt cs =
     (case onUpdate g dt cs of
        None \<Rightarrow> None
      | Some sc \<Rightarrow> Some (componentsUpdate g dt sc))"

text \<open>
  The game update and the fixed-step loop of a frame once \<open>deltaTime\<close> is known. The
  result is the accumulator and the scene when the loop exits, and the number of fixed
  steps the frame ran.
\<close>

definition frameLoop :: "Game \<Rightarrow> real \<Rightarrow> Engine \<Rightarrow> real \<times> Scene option \<times> nat" where
  "frameLoop g dt e = fixedLoop g (accumulator e + dt) (gameUpdate g dt (currentScene e)) 0"

text \<open>The frame once \<open>deltaTime\<close> is known: update, fixed-step loop, interpolation.\<close>

definition frameWith :: "Game \<Rightarrow> real \<Rightarrow> real \<Rightarrow> Engine \<Rightarrow> Engine \<times> nat" where
  "frameWith g dt now e =
     (case frameLoop g dt e of
        (acc, cs, n) \<Rightarrow>
          (e\<lparr>lastTime := now, deltaTime := dt, totalTime := now, accumulator := acc,
             currentScene := interpolate (acc / fixedTimeStep) cs\<rparr>, n))"

text \<open>One iteration of the loop of \<open>Engine::run\<close>; \<open>now\<close> is what \<open>glfwGetTime\<close> returns.\<close>

definition frame :: "Game \<Rightarrow> real \<Rightarrow> Engine \<Rightarrow> Engine \<times> nat" where
  "frame g now e = frameWith g (effectiveDelta (now - lastTime e)) now e"

definition positionOf :: "nat \<Rightarrow> Scene option \<Rightarrow> vec3 option" where
  "positionOf ob cs = (case cs of None \<Rightarrow> None | Some sc \<Rightarrow> Some (position (objects sc ob)))"

section \<open>The accumulator in binary32\<close>

text \<open>
  The fields \<open>deltaTime\<close>, \<open>accumulator\<close> and \<open>fixedTimeStep\<close> of the engine are \<open>float\<close>.
  A finite binary32 number is written as a pair \<open>(m, e)\<close> of integers that stands for
  m * 2^e; a number has many such pairs and only its value matters. All operations of
  this section compute on the integers.
\<close>

type_synonym float32 = "int \<times> int"

definition valueOf :: "float32 \<Rightarrow> real" where
  "valueOf x = real_of_int (fst x) * 2 powi (snd x)"

text \<open>The binary32 numbers: 24 significant bits, least exponent -149, magnitude below 2^128.\<close>

definition finite32 :: "float32 \<Rightarrow> bool" where
  "finite32 x =
     (if 0 \<le> snd x then \<bar>fst x\<bar> * 2 ^ nat (snd x) < 2 ^ 128
      else \<bar>fst x\<bar> < 2 ^ 128 * 2 ^ nat (- snd x))"

definition isBinary32 :: "float32 \<Rightarrow> bool" where
  "isBinary32 x = (\<bar>fst x\<bar> < 2 ^ 24 \<and> - 149 \<le> snd x \<and> finite32 x)"

text \<open>
  Rounding of m * 2^e to 24 significant bits, to nearest with ties to the even
  significand. The exponent is not bounded below here; the sum or difference of two
  binary32 numbers that falls into the subnormal range is a multiple of 2^(-149) with
  fewer than 24 bits and is not rounded, as in binary32.
\<close>

definition round24 :: "int \<Rightarrow> int \<Rightarrow> float32" where
  "round24 m e =
     (if bitlen \<bar>m\<bar> \<le> 24 then (m, e)
      else
        (let s = nat (bitlen \<bar>m\<bar> - 24);
             q = \<bar>m\<bar> div 2 ^ s;
             r = \<bar>m\<bar> mod 2 ^ s;
             h = 2 ^ (s - 1);
             q' = (if h < r \<or> (r = h \<and> odd q) then q + 1 else q)
         in (sgn m * q', e + int s)))"

text \<open>
  Addition and subtraction: the exact result, rounded. A result whose magnitude reaches
  2^128 is an infinity in binary32; it is \<open>None\<close> here.
\<close>

definition fadd :: "float32 \<Rightarrow> float32 \<Rightarrow> float32 option" where
  "fadd a b =
     (let e = min (snd a) (snd b);
          m = fst a * 2 ^ nat (snd a - e) + fst b * 2 ^ nat (snd b - e);
          r = round24 m e
      in if finite32 r then Some r else None)"

definition fsub :: "float32 \<Rightarrow> float32 \<Rightarrow> float32 option" where
  "fsub a b = fadd a (- fst b, snd b)"

text \<open>The comparison \<open>a <= b\<close>.\<close>

definition fle :: "float32 \<Rightarrow> float32 \<Rightarrow> bool" where
  "fle a b =
     (let e = min (snd a) (snd b)
      in fst a * 2 ^ nat (snd a - e) \<le> fst b * 2 ^ nat (snd b - e))"

definition zero32 :: float32 where
  "zero32 = (0, 0)"

text \<open>\<open>const float fixedTimeStep = 1.0f / 60.0f\<close>: the binary32 number nearest to 1/60.\<close>

definition fixedTimeStep32 :: float32 where
  "fixedTimeStep32 = (8947849, - 29)"

text \<open>
  The loop \<open>while (accumulator >= fixedTimeStep) { ...; accumulator -= fixedTimeStep; }\<close>
  on the accumulator alone, with the count of its iterations. The result is \<open>None\<close> when
  the loop does not return; an accumulator that has become infinite stays so.
\<close>

partial_function (option) fixedLoop32 :: "float32 \<Rightarrow> nat \<Rightarrow> (float32 \<times> nat) option" where
  "fixedLoop32 acc n =
     (if fle fixedTimeStep32 acc
      then (case fsub acc fixedTimeStep32 of
              None \<Rightarrow> None
            | Some acc' \<Rightarrow> fixedLoop32 acc' (Suc n))
      else Some (acc, n))"

declare fixedLoop32.simps [code]

text \<open>\<open>accumulator += deltaTime\<close> followed by the loop: the accumulator part of one frame.\<close>

definition accumulate32 :: "float32 \<Rightarrow> float32 \<Rightarrow> (float32 \<times> nat) option" where
  "accumulate32 acc dt =
     (case fadd acc dt of
        None \<Rightarrow> None
      | Some a \<Rightarrow> fixedLoop32 a 0)"

text \<open>
  A sequence of frames given by their \<open>deltaTime\<close> values: the accumulator at the end and
  the number of fixed steps of every frame.
\<close>

fun run32 :: "float32 list \<Rightarrow> float32 \<Rightarrow> (float32 \<times> nat list) option" where
  "run32 [] acc = Some (acc, [])"
| "run32 (dt # dts) acc =
     (case accumulate32 acc dt of
        None \<Rightarrow> None
      | Some (a, n) \<Rightarrow>
          (case run32 dts a of
             None \<Rightarrow> None
           | Some (a', ns) \<Rightarrow> Some (a', n # ns)))"

section \<open>Example data\<close>

text \<open>
  A scene with one object at the origin carrying one dynamic Rigidbody (the defaults of
  the class declarations), a game whose physics moves that object by 6 along x in every
  fixed step, and the engine as constructed (all clocks and the accumulator 0).
\<close>

definition exBody :: Rigidbody where
  "exBody = \<lparr>owner = Some 0, enabled = True, mass = 1, restitution = 0, friction = 1 / 2,
     useGravity = True, isKinematic = False, isGrounded = False, groundNormal = (0, 0, 1),
     previousPosition = (0, 0, 0), currentPosition = (0, 0, 0)\<rparr>"

definition exObject :: GameObject where
  "exObject = \<lparr>name = ''GameObject'', active = True, position = (0, 0, 0),
     rotation = (0, 0, 0), goComponents = [RigidbodyC exBody]\<rparr>"

definition exScene :: Scene where
  "exScene = \<lparr>components = [RigidbodyC exBody], gameObjects = [0], objects = (\<lambda>_. exObject)\<rparr>"

definition exGame :: Game where
  "exGame = \<lparr>onUpdate = (\<lambda>dt cs. cs), componentsUpdate = (\<lambda>dt sc. sc),
     componentsFixedUpdate = (\<lambda>dt sc. sc),
     collisionUpdate = (\<lambda>dt sc. setPosition 0 (vadd (position (objects sc 0)) (6, 0, 0)) sc)\<rparr>"

definition exEngine :: Engine where
  "exEngine = \<lparr>lastTime = 0, deltaTime = 0, totalTime = 0, accumulator = 0,
     currentScene = Some exScene\<rparr>"

text \<open>The engine after a first frame at clock reading 1/60 (one fixed step).\<close>

definition exEngine1 :: Engine where
  "exEngine1 = fst (frame exGame (1 / 60) exEngine)"

text \<open>
  An engine whose scene has two dynamic Rigidbodies on the same object, with different
  snapshots.
\<close>

definition exBodyB :: Rigidbody where
  "exBodyB = exBody\<lparr>currentPosition := (0, 4, 0)\<rparr>"

definition exSceneTwo :: Scene where
  "exSceneTwo = \<lparr>components = [RigidbodyC (exBody\<lparr>currentPosition := (6, 0, 0)\<rparr>), RigidbodyC exBodyB],
     gameObjects = [0], objects = (\<lambda>_. exObject)\<rparr>"

definition exEngineTwo :: Engine where
  "exEngineTwo = \<lparr>lastTime = 0, deltaTime = 0, totalTime = 0, accumulator = 0,
     currentScene = Some exSceneTwo\<rparr>"

text \<open>
  A player object with a box collider on layer Player and the Rigidbody above, the
  library's default body settings, and a physics query that reports a hit on body 7
  halfway along every ray.
\<close>

definition exCollider :: Collider where
  "exCollider = \<lparr>owner = Some 0, enabled = True, shapeType = Box, center = (0, 0, 0),
     size = (1, 1, 1), radius = 1 / 2, height = 1, meshPath = [],
     collisionLayer = LayerPlayer, collisionMask = LayerAll, isTrigger = False\<rparr>"

definition exDefaults :: BodyCreationSettings where
  "exDefaults = \<lparr>mShape = SphereShape 0, mPosition = (0, 0, 0), mRotation = (0, 0, 0),
     mMotionType = Dynamic, mObjectLayer = NON_MOVING, mFriction = 1 / 5, mRestitution = 0,
     mLinearDamping = 5 / 100, mAngularDamping = 5 / 100, mGravityFactor = 1,
     mMassOverride = None, mTranslationOnly = False, mIsSensor = False\<rparr>"

definition exPlayer :: GameObject where
  "exPlayer = \<lparr>name = ''Player'', active = True, position = (0, 0, 1), rotation = (0, 0, 0),
     goComponents = [ColliderC exCollider, RigidbodyC exBody]\<rparr>"

definition exQuery :: PhysicsQuery where
  "exQuery = \<lparr>castRay = (\<lambda>origin direction. Some \<lparr>mBodyID = 7, mFraction = 1 / 2\<rparr>),
     surfaceNormal = (\<lambda>bodyID p. Some (0, 0, 1))\<rparr>"

text \<open>
  A renderer with one loaded mesh, a cube that uses it and a ghost whose mesh was never
  loaded; zoom 2 about the centre; a texture whose texel holds its own coordinates.
\<close>

definition exMeshes :: "RendererMesh list" where
  "exMeshes = [\<lparr>mesh_name = ''cube'', vertexCount = 36\<rparr>]"

definition exCube :: GameObject where
  "exCube = \<lparr>name = ''Cube'', active = True, position = (0, 0, 0), rotation = (0, 0, 0),
     goComponents = [MeshC \<lparr>owner = Some 0, enabled = True, meshName = ''cube'',
                             color = (1, 1, 1, 1)\<rparr>]\<rparr>"

definition exGhost :: GameObject where
  "exGhost = \<lparr>name = ''Ghost'', active = True, position = (0, 0, 0), rotation = (0, 0, 0),
     goComponents = [MeshC \<lparr>owner = Some 1, enabled = True, meshName = ''ghost'',
                             color = (1, 1, 1, 1)\<rparr>]\<rparr>"

definition exStore :: "nat \<Rightarrow> GameObject" where
  "exStore ob = (if ob = 1 then exGhost else exCube)"

definition exZoom :: ZoomUniforms where
  "exZoom = \<lparr>zoom = 2, centerX = 1 / 2, centerY = 1 / 2\<rparr>"

definition exZoomEdge :: ZoomUniforms where
  "exZoomEdge = \<lparr>zoom = 2, centerX = 9 / 10, centerY = 1 / 2\<rparr>"

definition exTexture :: "int \<times> int \<Rightarrow> vec4" where
  "exTexture p = (of_int (fst p), of_int (snd p), 0, 1)"

text \<open>A silhouette with an object on the right half of the screen, at constant depth.\<close>

definition exSilhouette :: "real \<times> real \<Rightarrow> vec4" where
  "exSilhouette uv = (if 1 / 2 < fst uv then (1 / 255, 1, 1 / 2, 1) else (0, 0, 1 / 2, 1))"

section \<open>Verified properties\<close>

subsection \<open>Evaluation of the examples\<close>

lemmas ex_defs = exBody_def exObject_def exScene_def exGame_def exEngine_def
lemmas frame_defs = frame_def frameWith_def frameLoop_def effectiveDelta_def fixedTimeStep_def gameUpdate_def
  fixedStep_def storePrevious_def storePrevious1_def storeCurrent_def storeCurrent1_def
  interpolate_def interpolate1_def setPosition_def mix_def positionOf_def

lemma exEngine1_eval:
  "exEngine1 = \<lparr>lastTime = 1 / 60, deltaTime = 1 / 60, totalTime = 1 / 60, accumulator = 0,
     currentScene = Some \<lparr>components = [RigidbodyC (exBody\<lparr>currentPosition := (6, 0, 0)\<rparr>)],
        gameObjects = [0], objects = (\<lambda>_. exObject)(0 := exObject\<lparr>position := (0, 0, 0)\<rparr>)\<rparr>\<rparr>"
  by (simp add: exEngine1_def ex_defs frame_defs fixedLoop.simps)

subsection \<open>Interpolation and snapshots\<close>

lemma interpolate1_other:
  assumes "\<And>rb. c = RigidbodyC rb \<Longrightarrow> interpolated rb \<Longrightarrow> owner rb \<noteq> Some ob"
  shows "position (objects (interpolate1 \<alpha> c sc) ob) = position (objects sc ob)"
proof (cases c)
  case (RigidbodyC rb)
  with assms [of rb] show ?thesis
    by (auto simp add: interpolate1_def interpolated_def setPosition_def split: option.splits)
qed (simp_all add: interpolate1_def)

lemma interpolate1_sets:
  assumes "interpolated rb" and "owner rb = Some ob"
  shows "position (objects (interpolate1 \<alpha> (RigidbodyC rb) sc) ob)
       = mix3 (previousPosition rb) (currentPosition rb) \<alpha>"
  using assms by (simp add: interpolate1_def interpolated_def setPosition_def)

lemma interpolateLoop_other:
  "(\<And>rb. RigidbodyC rb \<in> set comps \<Longrightarrow> interpolated rb \<Longrightarrow> owner rb \<noteq> Some ob) \<Longrightarrow>
     position (objects (interpolateLoop \<alpha> comps sc) ob) = position (objects sc ob)"
proof (induction comps arbitrary: sc)
  case Nil
  show ?case by simp
next
  case (Cons c cs)
  have "position (objects (interpolateLoop \<alpha> cs (interpolate1 \<alpha> c sc)) ob)
      = position (objects (interpolate1 \<alpha> c sc) ob)"
    by (rule Cons.IH) (simp add: Cons.prems)
  also have "\<dots> = position (objects sc ob)"
    by (rule interpolate1_other) (simp add: Cons.prems)
  finally show ?case by simp
qed

lemma interpolateLoop_append:
  "interpolateLoop \<alpha> (xs @ ys) sc = interpolateLoop \<alpha> ys (interpolateLoop \<alpha> xs sc)"
  by (induction xs arbitrary: sc) simp_all

lemma interpolateLoop_last:
  assumes "interpolated rb" and "owner rb = Some ob"
    and "\<And>rb'. RigidbodyC rb' \<in> set post \<Longrightarrow> interpolated rb' \<Longrightarrow> owner rb' \<noteq> Some ob"
  shows "position (objects (interpolateLoop \<alpha> (pre @ RigidbodyC rb # post) sc) ob)
       = mix3 (previousPosition rb) (currentPosition rb) \<alpha>"
proof -
  have "interpolateLoop \<alpha> (pre @ RigidbodyC rb # post) sc
      = interpolateLoop \<alpha> post (interpolate1 \<alpha> (RigidbodyC rb) (interpolateLoop \<alpha> pre sc))"
    by (simp add: interpolateLoop_append)
  moreover have "position (objects (interpolateLoop \<alpha> post
        (interpolate1 \<alpha> (RigidbodyC rb) (interpolateLoop \<alpha> pre sc))) ob)
      = position (objects (interpolate1 \<alpha> (RigidbodyC rb) (interpolateLoop \<alpha> pre sc)) ob)"
    by (rule interpolateLoop_other) (rule assms(3))
  ultimately show ?thesis
    by (simp add: interpolate1_sets [OF assms(1,2)])
qed

lemma storePrevious1_snapshot:
  "storePrevious1 sc c = RigidbodyC rb \<Longrightarrow> interpolated rb \<Longrightarrow> owner rb = Some ob \<Longrightarrow>
     previousPosition rb = position (objects sc ob)"
  by (cases c)
    (auto simp add: storePrevious1_def interpolated_def split: option.splits if_splits)

lemma storePrevious_snapshot:
  assumes "RigidbodyC rb \<in> set (components (storePrevious sc))" and "interpolated rb"
    and "owner rb = Some ob"
  shows "previousPosition rb = position (objects sc ob)"
proof -
  from assms(1) obtain c where "storePrevious1 sc c = RigidbodyC rb"
    by (auto simp add: storePrevious_def)
  from storePrevious1_snapshot [OF this assms(2,3)] show ?thesis
    by (simp add: storePrevious_def)
qed

lemma storeCurrent1_snapshot:
  "storeCurrent1 sc c = RigidbodyC rb \<Longrightarrow> interpolated rb \<Longrightarrow> owner rb = Some ob \<Longrightarrow>
     currentPosition rb = position (objects sc ob)"
  by (cases c)
    (auto simp add: storeCurrent1_def interpolated_def split: option.splits if_splits)

lemma storeCurrent_snapshot:
  assumes "RigidbodyC rb \<in> set (components (storeCurrent sc))" and "interpolated rb"
    and "owner rb = Some ob"
  shows "currentPosition rb = position (objects (storeCurrent sc) ob)"
proof -
  from assms(1) obtain c where "storeCurrent1 sc c = RigidbodyC rb"
    by (auto simp add: storeCurrent_def)
  from storeCurrent1_snapshot [OF this assms(2,3)] show ?thesis
    by (simp add: storeCurrent_def)
qed

lemma mix_ends: "mix x y 0 = x" "mix x y 1 = y" "mix x y a - y = (1 - a) * (x - y)"
  by (simp_all add: mix_def algebra_simps)

lemma mix3_ends: "mix3 p c 0 = p" "mix3 p c 1 = c"
  by (cases p; cases c; simp add: mix_ends)+

subsection \<open>The fixed-step loop\<close>

lemma fixedLoop_result:
  "fixedLoop g acc cs n = (acc', cs', n') \<Longrightarrow> 0 \<le> acc \<Longrightarrow>
     0 \<le> acc' \<and> acc' < fixedTimeStep \<and> n \<le> n'
     \<and> acc = acc' + real (n' - n) * fixedTimeStep
     \<and> ((n' = n \<and> cs' = cs) \<or> (n < n' \<and> (\<exists>cs0. cs' = fixedStep g cs0)))"
proof (induction g acc cs n rule: fixedLoop.induct)
  case (1 g acc cs n)
  show ?case
  proof (cases "fixedTimeStep \<le> acc")
    case True
    with "1.prems" have r: "fixedLoop g (acc - fixedTimeStep) (fixedStep g cs) (Suc n) = (acc', cs', n')"
      by (simp add: fixedLoop.simps [of g acc])
    from True have "0 \<le> acc - fixedTimeStep" by simp
    from "1.IH" [OF True r this]
    have ih: "0 \<le> acc'" "acc' < fixedTimeStep" "Suc n \<le> n'"
      "acc - fixedTimeStep = acc' + real (n' - Suc n) * fixedTimeStep"
      "(n' = Suc n \<and> cs' = fixedStep g cs) \<or> (Suc n < n' \<and> (\<exists>cs0. cs' = fixedStep g cs0))"
      by blast+
    from ih(3) have "real (n' - n) = real (n' - Suc n) + 1"
      by (simp add: Suc_diff_le of_nat_diff)
    with ih(4) have "acc = acc' + real (n' - n) * fixedTimeStep"
      by (simp add: algebra_simps)
    moreover from ih(5) ih(3) have "n < n' \<and> (\<exists>cs0. cs' = fixedStep g cs0)"
      by auto
    ultimately show ?thesis using ih(1,2,3) by simp
  next
    case False
    with "1.prems" have "acc' = acc" "cs' = cs" "n' = n"
      by (simp_all add: fixedLoop.simps [of g acc])
    with False "1.prems" show ?thesis by simp
  qed
qed

lemma fixedLoop_iterate:
  "fixedLoop g acc cs n = (acc', cs', n') \<Longrightarrow> n \<le> n' \<and> cs' = (fixedStep g ^^ (n' - n)) cs"
proof (induction g acc cs n rule: fixedLoop.induct)
  case (1 g acc cs n)
  show ?case
  proof (cases "fixedTimeStep \<le> acc")
    case True
    with "1.prems" have r: "fixedLoop g (acc - fixedTimeStep) (fixedStep g cs) (Suc n) = (acc', cs', n')"
      by (simp add: fixedLoop.simps [of g acc])
    from "1.IH" [OF True r]
    have ih: "Suc n \<le> n'" "cs' = (fixedStep g ^^ (n' - Suc n)) (fixedStep g cs)"
      by blast+
    from ih(1) have "n' - n = Suc (n' - Suc n)" by simp
    with ih show ?thesis
      by (simp add: funpow_swap1)
  next
    case False
    with "1.prems" show ?thesis
      by (simp add: fixedLoop.simps [of g acc])
  qed
qed

lemma frameLoop_result:
  assumes "0 \<le> accumulator e" and "frameLoop g (effectiveDelta d) e = (acc, cs, n)"
  shows "0 \<le> acc" and "acc < fixedTimeStep"
    and "accumulator e + effectiveDelta d = acc + real n * fixedTimeStep"
    and "n = 0 \<Longrightarrow> cs = gameUpdate g (effectiveDelta d) (currentScene e)"
    and "0 < n \<Longrightarrow> \<exists>cs0. cs = fixedStep g cs0"
proof -
  have "0 < effectiveDelta d" by (simp add: effectiveDelta_def)
  with assms(1) have "0 \<le> accumulator e + effectiveDelta d" by simp
  from fixedLoop_result [OF assms(2) [unfolded frameLoop_def] this]
  have r: "0 \<le> acc" "acc < fixedTimeStep"
    "accumulator e + effectiveDelta d = acc + real (n - 0) * fixedTimeStep"
    "(n = 0 \<and> cs = gameUpdate g (effectiveDelta d) (currentScene e)) \<or> (0 < n \<and> (\<exists>cs0. cs = fixedStep g cs0))"
    by blast+
  from r(1) show "0 \<le> acc" .
  from r(2) show "acc < fixedTimeStep" .
  from r(3) show "accumulator e + effectiveDelta d = acc + real n * fixedTimeStep" by simp
  from r(4) show "n = 0 \<Longrightarrow> cs = gameUpdate g (effectiveDelta d) (currentScene e)" by auto
  from r(4) show "0 < n \<Longrightarrow> \<exists>cs0. cs = fixedStep g cs0" by auto
qed

lemma frame_unfold:
  assumes "frameLoop g (effectiveDelta (now - lastTime e)) e = (acc, cs, n)"
  shows "frame g now e =
    (e\<lparr>lastTime := now, deltaTime := effectiveDelta (now - lastTime e), totalTime := now,
       accumulator := acc, currentScene := interpolate (acc / fixedTimeStep) cs\<rparr>, n)"
  using assms by (simp add: frame_def frameWith_def)

subsection \<open>Claims on the frame scheduler\<close>

text \<open>
  Claim C1 (as amended). In every frame that starts with a non-negative accumulator,
  when the fixed-step loop exits the factor alpha = accumulator / fixedTimeStep lies in
  [0,1), and the frame's final scene is the scene at loop exit with the interpolation
  applied: every object owning an enabled, non-kinematic Rigidbody ends at
  \<open>mix3 previousPosition currentPosition alpha\<close> of the last such Rigidbody in component
  order, and every other object keeps its position. The scene at loop exit is the scene
  after the game update with the fixed step applied n times, where n fixed steps account
  for the accumulated time; so the two snapshots are those of the most recent fixed step:
  if the frame ran no fixed step they are the ones carried into the frame, and if it ran
  some, the last step stored previousPosition from the owner's position before its
  callbacks and physics ran and currentPosition from the owner's position after them. The
  blend is previousPosition at alpha = 0, currentPosition at alpha = 1, and its distance
  from currentPosition is proportional to 1 - alpha.
\<close>

theorem frame_interpolation:
  assumes "0 \<le> accumulator e"
    and "frameLoop g (effectiveDelta (now - lastTime e)) e = (acc, cs, n)"
  shows "0 \<le> acc / fixedTimeStep \<and> acc / fixedTimeStep < 1
    \<and> accumulator (fst (frame g now e)) = acc
    \<and> currentScene (fst (frame g now e)) = interpolate (acc / fixedTimeStep) cs
    \<and> (\<forall>sc pre rb post ob. cs = Some sc \<and> components sc = pre @ RigidbodyC rb # post
            \<and> interpolated rb \<and> owner rb = Some ob
            \<and> (\<forall>rb'. RigidbodyC rb' \<in> set post \<and> interpolated rb' \<longrightarrow> owner rb' \<noteq> Some ob)
          \<longrightarrow> positionOf ob (currentScene (fst (frame g now e)))
              = Some (mix3 (previousPosition rb) (currentPosition rb) (acc / fixedTimeStep)))
    \<and> (\<forall>sc ob. cs = Some sc
            \<and> (\<forall>rb'. RigidbodyC rb' \<in> set (components sc) \<and> interpolated rb'
                    \<longrightarrow> owner rb' \<noteq> Some ob)
          \<longrightarrow> positionOf ob (currentScene (fst (frame g now e)))
              = Some (position (objects sc ob)))
    \<and> accumulator e + effectiveDelta (now - lastTime e) = acc + real n * fixedTimeStep
    \<and> cs = (fixedStep g ^^ n) (gameUpdate g (effectiveDelta (now - lastTime e)) (currentScene e))
    \<and> (n = 0 \<longrightarrow> cs = gameUpdate g (effectiveDelta (now - lastTime e)) (currentScene e))
    \<and> (\<forall>m sc0. n = Suc m
            \<and> (fixedStep g ^^ m) (gameUpdate g (effectiveDelta (now - lastTime e)) (currentScene e))
                = Some sc0
          \<longrightarrow> cs = Some (storeCurrent (collisionUpdate g fixedTimeStep
                        (componentsFixedUpdate g fixedTimeStep (storePrevious sc0)))))
    \<and> (0 < n \<longrightarrow> (\<exists>sc0. cs = Some (storeCurrent (collisionUpdate g fixedTimeStep
                        (componentsFixedUpdate g fixedTimeStep (storePrevious sc0))))) \<or> cs = None)
    \<and> (\<forall>sc0 rb ob. RigidbodyC rb \<in> set (components (storePrevious sc0)) \<and> interpolated rb
            \<and> owner rb = Some ob \<longrightarrow> previousPosition rb = position (objects sc0 ob))
    \<and> (\<forall>sc1 rb ob. RigidbodyC rb \<in> set (components (storeCurrent sc1)) \<and> interpolated rb
            \<and> owner rb = Some ob
          \<longrightarrow> currentPosition rb = position (objects (storeCurrent sc1) ob))
    \<and> (\<forall>p c. mix3 p c 0 = p \<and> mix3 p c 1 = c)
    \<and> (\<forall>x y a. mix x y a - y = (1 - a) * (x - y))"
proof -
  note r = frameLoop_result [OF assms]
  note f = frame_unfold [OF assms(2)]
  from r(1,2) have alpha: "0 \<le> acc / fixedTimeStep \<and> acc / fixedTimeStep < 1"
    by (simp add: fixedTimeStep_def)
  have acc: "accumulator (fst (frame g now e)) = acc"
    by (simp add: f)
  have sc: "currentScene (fst (frame g now e)) = interpolate (acc / fixedTimeStep) cs"
    by (simp add: f)
  have pos: "\<forall>sc pre rb post ob. cs = Some sc \<and> components sc = pre @ RigidbodyC rb # post
            \<and> interpolated rb \<and> owner rb = Some ob
            \<and> (\<forall>rb'. RigidbodyC rb' \<in> set post \<and> interpolated rb' \<longrightarrow> owner rb' \<noteq> Some ob)
          \<longrightarrow> positionOf ob (currentScene (fst (frame g now e)))
              = Some (mix3 (previousPosition rb) (currentPosition rb) (acc / fixedTimeStep))"
  proof (intro allI impI, elim conjE)
    fix sc pre rb post ob
    assume a: "cs = Some sc" "components sc = pre @ RigidbodyC rb # post" "interpolated rb"
      "owner rb = Some ob"
      "\<forall>rb'. RigidbodyC rb' \<in> set post \<and> interpolated rb' \<longrightarrow> owner rb' \<noteq> Some ob"
    have "position (objects (interpolateLoop (acc / fixedTimeStep) (pre @ RigidbodyC rb # post) sc) ob)
       = mix3 (previousPosition rb) (currentPosition rb) (acc / fixedTimeStep)"
      by (rule interpolateLoop_last [OF a(3,4)]) (use a(5) in blast)
    with a(1,2) show "positionOf ob (currentScene (fst (frame g now e)))
              = Some (mix3 (previousPosition rb) (currentPosition rb) (acc / fixedTimeStep))"
      by (simp add: sc interpolate_def positionOf_def)
  qed
  have keep: "\<forall>sc ob. cs = Some sc
            \<and> (\<forall>rb'. RigidbodyC rb' \<in> set (components sc) \<and> interpolated rb'
                    \<longrightarrow> owner rb' \<noteq> Some ob)
          \<longrightarrow> positionOf ob (currentScene (fst (frame g now e)))
              = Some (position (objects sc ob))"
  proof (intro allI impI, elim conjE)
    fix sc ob
    assume a: "cs = Some sc"
      "\<forall>rb'. RigidbodyC rb' \<in> set (components sc) \<and> interpolated rb' \<longrightarrow> owner rb' \<noteq> Some ob"
    have "position (objects (interpolateLoop (acc / fixedTimeStep) (components sc) sc) ob)
       = position (objects sc ob)"
      by (rule interpolateLoop_other) (use a(2) in blast)
    with a(1) show "positionOf ob (currentScene (fst (frame g now e))) = Some (position (objects sc ob))"
      by (simp add: sc interpolate_def positionOf_def)
  qed
  have count: "accumulator e + effectiveDelta (now - lastTime e) = acc + real n * fixedTimeStep"
    by (rule r(3))
  from fixedLoop_iterate [OF assms(2) [unfolded frameLoop_def]]
  have iter: "cs = (fixedStep g ^^ n) (gameUpdate g (effectiveDelta (now - lastTime e)) (currentScene e))"
    by simp
  have zero: "n = 0 \<longrightarrow> cs = gameUpdate g (effectiveDelta (now - lastTime e)) (currentScene e)"
    using r(4) by blast
  have last: "\<forall>m sc0. n = Suc m
            \<and> (fixedStep g ^^ m) (gameUpdate g (effectiveDelta (now - lastTime e)) (currentScene e))
                = Some sc0
          \<longrightarrow> cs = Some (storeCurrent (collisionUpdate g fixedTimeStep
                        (componentsFixedUpdate g fixedTimeStep (storePrevious sc0))))"
    by (simp add: iter fixedStep_def)
  have some: "0 < n \<longrightarrow> (\<exists>sc0. cs = Some (storeCurrent (collisionUpdate g fixedTimeStep
                        (componentsFixedUpdate g fixedTimeStep (storePrevious sc0))))) \<or> cs = None"
  proof
    assume "0 < n"
    from r(5) [OF this] obtain cs0 where "cs = fixedStep g cs0" ..
    then show "(\<exists>sc0. cs = Some (storeCurrent (collisionUpdate g fixedTimeStep
                        (componentsFixedUpdate g fixedTimeStep (storePrevious sc0))))) \<or> cs = None"
      by (cases cs0) (auto simp add: fixedStep_def)
  qed
  have prev: "\<forall>sc0 rb ob. RigidbodyC rb \<in> set (components (storePrevious sc0)) \<and> interpolated rb
            \<and> owner rb = Some ob \<longrightarrow> previousPosition rb = position (objects sc0 ob)"
    using storePrevious_snapshot by blast
  have cur: "\<forall>sc1 rb ob. RigidbodyC rb \<in> set (components (storeCurrent sc1)) \<and> interpolated rb
            \<and> owner rb = Some ob
          \<longrightarrow> currentPosition rb = position (objects (storeCurrent sc1) ob)"
    using storeCurrent_snapshot by blast
  have ends: "\<forall>p c. mix3 p c 0 = p \<and> mix3 p c 1 = c"
    by (simp add: mix3_ends)
  have lin: "\<forall>x y a. mix x y a - y = (1 - a) * (x - y)"
    by (simp add: mix_ends(3))
  show ?thesis
    apply (rule conjI [OF conjunct1 [OF alpha]])
    apply (rule conjI [OF conjunct2 [OF alpha]])
    apply (rule conjI [OF acc])
    apply (rule conjI [OF sc])
    apply (rule conjI [OF pos])
    apply (rule conjI [OF keep])
    apply (rule conjI [OF count])
    apply (rule conjI [OF iter])
    apply (rule conjI [OF zero])
    apply (rule conjI [OF last])
    apply (rule conjI [OF some])
    apply (rule conjI [OF prev])
    apply (rule conjI [OF cur])
    apply (rule conjI [OF ends])
    apply (rule lin)
    done
qed

text \<open>
  Witness for C1: a frame of 1/120 on the scene with two Rigidbodies on one object runs
  no fixed step, ends with alpha = 1/2 and leaves the object at the blend of the second
  body, (0,2,0), not at that of the first, (3,0,0).
\<close>

theorem frame_interpolation_witness:
  "0 \<le> accumulator exEngineTwo
   \<and> frameLoop exGame (effectiveDelta (1 / 120 - lastTime exEngineTwo)) exEngineTwo
       = (1 / 120, Some exSceneTwo, 0)
   \<and> 0 \<le> (1 / 120) / fixedTimeStep \<and> (1 / 120) / fixedTimeStep < 1
   \<and> components exSceneTwo
       = [RigidbodyC (exBody\<lparr>currentPosition := (6, 0, 0)\<rparr>)] @ RigidbodyC exBodyB # []
   \<and> owner (exBody\<lparr>currentPosition := (6, 0, 0)\<rparr>) = owner exBodyB
   \<and> positionOf 0 (currentScene (fst (frame exGame (1 / 120) exEngineTwo)))
       = Some (mix3 (previousPosition exBodyB) (currentPosition exBodyB) ((1 / 120) / fixedTimeStep))
   \<and> positionOf 0 (currentScene (fst (frame exGame (1 / 120) exEngineTwo))) = Some (0, 2, 0)
   \<and> mix3 (0, 0, 0) (6, 0, 0) ((1 / 120) / fixedTimeStep) = (3, 0, 0)"
proof -
  have h1: "0 \<le> accumulator exEngineTwo"
    by (simp add: exEngineTwo_def)
  have h2: "frameLoop exGame (effectiveDelta (1 / 120 - lastTime exEngineTwo)) exEngineTwo
       = (1 / 120, Some exSceneTwo, 0)"
    by (simp add: exEngineTwo_def exGame_def frameLoop_def effectiveDelta_def fixedTimeStep_def
        gameUpdate_def fixedLoop.simps)
  note t = frame_interpolation [OF h1 h2]
  from t have alpha: "0 \<le> (1 / 120) / fixedTimeStep \<and> (1 / 120) / fixedTimeStep < 1"
    by blast
  have c: "components exSceneTwo
       = [RigidbodyC (exBody\<lparr>currentPosition := (6, 0, 0)\<rparr>)] @ RigidbodyC exBodyB # []"
    by (simp add: exSceneTwo_def)
  have o: "owner (exBody\<lparr>currentPosition := (6, 0, 0)\<rparr>) = owner exBodyB"
    by (simp add: exBodyB_def)
  have i: "interpolated exBodyB" "owner exBodyB = Some 0"
    by (simp_all add: exBodyB_def exBody_def interpolated_def)
  from t have "\<forall>sc pre rb post ob. Some exSceneTwo = Some sc \<and> components sc = pre @ RigidbodyC rb # post
            \<and> interpolated rb \<and> owner rb = Some ob
            \<and> (\<forall>rb'. RigidbodyC rb' \<in> set post \<and> interpolated rb' \<longrightarrow> owner rb' \<noteq> Some ob)
          \<longrightarrow> positionOf ob (currentScene (fst (frame exGame (1 / 120) exEngineTwo)))
              = Some (mix3 (previousPosition rb) (currentPosition rb) ((1 / 120) / fixedTimeStep))"
    by (elim conjE)
  from this [rule_format, of exSceneTwo "[RigidbodyC (exBody\<lparr>currentPosition := (6, 0, 0)\<rparr>)]" exBodyB "[]" 0]
    c i
  have p: "positionOf 0 (currentScene (fst (frame exGame (1 / 120) exEngineTwo)))
       = Some (mix3 (previousPosition exBodyB) (currentPosition exBodyB) ((1 / 120) / fixedTimeStep))"
    by simp
  then have v: "positionOf 0 (currentScene (fst (frame exGame (1 / 120) exEngineTwo))) = Some (0, 2, 0)"
    by (simp add: exBodyB_def exBody_def fixedTimeStep_def mix_def)
  have first: "mix3 (0, 0, 0) (6, 0, 0) ((1 / 120) / fixedTimeStep) = (3, 0, 0)"
    by (simp add: fixedTimeStep_def mix_def)
  from h1 h2 alpha c o p v first show ?thesis
    by (intro conjI) simp_all
qed

text \<open>
  Counterexample to C1 as stated: the second frame of the example, at clock reading 1/40,
  runs no fixed step. The owner is at the origin before and after that frame's (empty)
  fixed updates, yet it is rendered at (3,0,0), the blend of the snapshots taken in the
  first frame.
\<close>

theorem frame_snapshots_counterexample:
  "frameLoop exGame (effectiveDelta (1 / 40 - lastTime exEngine1)) exEngine1
     = (1 / 120, currentScene exEngine1, 0)
   \<and> gameUpdate exGame (effectiveDelta (1 / 40 - lastTime exEngine1)) (currentScene exEngine1)
     = currentScene exEngine1
   \<and> positionOf 0 (currentScene exEngine1) = Some (0, 0, 0)
   \<and> positionOf 0 (currentScene (fst (frame exGame (1 / 40) exEngine1))) = Some (3, 0, 0)
   \<and> mix3 (0, 0, 0) (0, 0, 0) ((1 / 120) / fixedTimeStep) \<noteq> (3, 0, 0)"
proof -
  have a: "frameLoop exGame (effectiveDelta (1 / 40 - lastTime exEngine1)) exEngine1
     = (1 / 120, currentScene exEngine1, 0)"
    by (simp add: exEngine1_eval frameLoop_def effectiveDelta_def fixedTimeStep_def
        gameUpdate_def exGame_def fixedLoop.simps)
  have b: "gameUpdate exGame (effectiveDelta (1 / 40 - lastTime exEngine1)) (currentScene exEngine1)
     = currentScene exEngine1"
    by (simp add: exEngine1_eval gameUpdate_def exGame_def)
  have c: "positionOf 0 (currentScene exEngine1) = Some (0, 0, 0)"
    by (simp add: exEngine1_eval positionOf_def)
  have d: "positionOf 0 (currentScene (fst (frame exGame (1 / 40) exEngine1))) = Some (3, 0, 0)"
    by (simp add: exEngine1_eval ex_defs frame_defs fixedLoop.simps)
  have e: "mix3 (0, 0, 0) (0, 0, 0) ((1 / 120) / fixedTimeStep) \<noteq> (3, 0, 0)"
    by (simp add: mix_def)
  from a b c d e show ?thesis
    by blast
qed

subsection \<open>Binary32 arithmetic of the accumulator\<close>

lemma valueOf_shift: "valueOf (m * 2 ^ s, e) = valueOf (m, e + int s)"
  by (simp add: valueOf_def power_int_add)

lemma valueOf_align:
  assumes "e \<le> e1"
  shows "valueOf (m * 2 ^ nat (e1 - e), e) = valueOf (m, e1)"
proof -
  from assms have "e + int (nat (e1 - e)) = e1" by simp
  with valueOf_shift [of m "nat (e1 - e)" e] show ?thesis by simp
qed

lemma valueOf_add: "valueOf (m1 + m2, e) = valueOf (m1, e) + valueOf (m2, e)"
  by (simp add: valueOf_def algebra_simps)

lemma valueOf_le: "valueOf (m1, e) \<le> valueOf (m2, e) \<longleftrightarrow> m1 \<le> m2"
  by (simp add: valueOf_def)

lemma valueOf_neg: "valueOf (- m, e) = - valueOf (m, e)"
  by (simp add: valueOf_def)

lemma powi2_pos: "\<not> (2::real) powi e \<le> 0"
  by (simp add: not_le)

lemma valueOf_nonneg: "0 \<le> valueOf (m, e) \<longleftrightarrow> 0 \<le> m"
  by (simp add: valueOf_def zero_le_mult_iff powi2_pos)

lemma powi2_neg:
  assumes "e < 0"
  shows "(2::real) powi e = 1 / 2 ^ nat (- e)"
proof -
  have "(2::real) powi (- (- e)) = inverse (2 powi (- e))"
    by (rule power_int_minus)
  also from assms have "(2::real) powi (- e) = 2 ^ nat (- e)"
    by (simp add: power_int_nonneg_exp)
  finally show ?thesis
    by (simp add: inverse_eq_divide)
qed

lemma fle_valueOf: "fle a b \<longleftrightarrow> valueOf a \<le> valueOf b"
proof -
  define e where "e = min (snd a) (snd b)"
  have "valueOf a = valueOf (fst a * 2 ^ nat (snd a - e), e)"
    using valueOf_align [of e "snd a" "fst a"] by (simp add: e_def)
  moreover have "valueOf b = valueOf (fst b * 2 ^ nat (snd b - e), e)"
    using valueOf_align [of e "snd b" "fst b"] by (simp add: e_def)
  ultimately show ?thesis
    by (simp add: fle_def Let_def valueOf_le e_def [symmetric])
qed

lemma finite32_valueOf: "finite32 x \<longleftrightarrow> \<bar>valueOf x\<bar> < 2 ^ 128"
proof (cases "0 \<le> snd x")
  case True
  then have "\<bar>valueOf x\<bar> = real_of_int (\<bar>fst x\<bar> * 2 ^ nat (snd x))"
    by (simp add: valueOf_def abs_mult power_int_nonneg_exp)
  also have "\<dots> < 2 ^ 128 \<longleftrightarrow> \<bar>fst x\<bar> * 2 ^ nat (snd x) < 2 ^ 128"
    by (rule of_int_less_numeral_power_cancel_iff)
  finally show ?thesis using True by (simp add: finite32_def)
next
  case False
  then have "snd x < 0" by simp
  from powi2_neg [OF this]
  have "\<bar>valueOf x\<bar> = real_of_int \<bar>fst x\<bar> / 2 ^ nat (- snd x)"
    by (simp add: valueOf_def abs_mult)
  also have "\<dots> < 2 ^ 128 \<longleftrightarrow> real_of_int \<bar>fst x\<bar> < 2 ^ 128 * 2 ^ nat (- snd x)"
    by (simp add: field_simps)
  also have "(2::real) ^ 128 * 2 ^ nat (- snd x) = real_of_int (2 ^ 128 * 2 ^ nat (- snd x))"
    by simp
  also have "real_of_int \<bar>fst x\<bar> < real_of_int (2 ^ 128 * 2 ^ nat (- snd x))
      \<longleftrightarrow> \<bar>fst x\<bar> < 2 ^ 128 * 2 ^ nat (- snd x)"
    by (rule of_int_less_iff)
  finally show ?thesis using False by (simp add: finite32_def)
qed

lemma round24_cases:
  assumes "0 \<le> m"
  shows "(bitlen m \<le> 24 \<and> round24 m e = (m, e))
       \<or> (\<exists>s q'. 0 < s \<and> round24 m e = (q', e + int s) \<and> 0 \<le> q'
             \<and> q' * 2 ^ s \<le> m + 2 ^ (s - 1) \<and> m - 2 ^ (s - 1) \<le> q' * 2 ^ s
             \<and> 2 ^ (s - 1) * 2 ^ 24 \<le> m)"
proof (cases "bitlen m \<le> 24")
  case True
  with assms show ?thesis
    by (simp add: round24_def)
next
  case False
  define s where "s = nat (bitlen m - 24)"
  define q where "q = m div 2 ^ s"
  define r where "r = m mod 2 ^ s"
  define h :: int where "h = 2 ^ (s - 1)"
  define q' where "q' = (if h < r \<or> (r = h \<and> odd q) then q + 1 else q)"
  from False have s: "0 < s" by (simp add: s_def)
  from False have mpos: "0 < m"
    using assms bitlen_eq_zero_iff [of m] by (cases "m = 0") auto
  then have sg: "sgn m = 1" and ab: "\<bar>m\<bar> = m" by simp_all
  have rd: "round24 m e = (q', e + int s)"
    unfolding round24_def Let_def ab q'_def h_def r_def q_def s_def
    using False sg by simp
  have m: "m = q * 2 ^ s + r"
    unfolding q_def r_def by (rule div_mult_mod_eq [symmetric])
  have q0: "0 \<le> q"
    using assms by (simp add: q_def pos_imp_zdiv_nonneg_iff)
  then have q'0: "0 \<le> q'" by (simp add: q'_def)
  have two: "(2::int) ^ s = 2 * h"
    using s by (cases s) (simp_all add: h_def)
  have r0: "0 \<le> r" by (simp add: r_def)
  have up: "q' * 2 ^ s \<le> m + h"
  proof (cases "h < r \<or> (r = h \<and> odd q)")
    case True
    then have "h \<le> r" by auto
    moreover from True have "q' = q + 1" by (simp add: q'_def)
    ultimately show ?thesis
      using m two by (simp add: algebra_simps)
  next
    case False
    then have "q' = q" by (simp add: q'_def)
    moreover have "0 \<le> h" by (simp add: h_def)
    ultimately show ?thesis using m r0 by simp
  qed
  have r1: "r < 2 ^ s" by (simp add: r_def)
  have dn: "m - h \<le> q' * 2 ^ s"
  proof (cases "h < r \<or> (r = h \<and> odd q)")
    case True
    then have "q' = q + 1" by (simp add: q'_def)
    moreover have "0 \<le> h" by (simp add: h_def)
    ultimately show ?thesis
      using m r1 by (simp add: algebra_simps)
  next
    case False
    then have "r \<le> h" by auto
    moreover from False have "q' = q" by (simp add: q'_def)
    ultimately show ?thesis using m by simp
  qed
  from False have b: "nat (bitlen m - 1) = s - 1 + 24"
    using s by (simp add: s_def)
  from bitlen_bounds [OF mpos] have "2 ^ nat (bitlen m - 1) \<le> m" ..
  then have lo: "h * 2 ^ 24 \<le> m"
    by (simp add: b h_def power_add)
  from s rd q'0 up dn lo show ?thesis
    unfolding h_def by blast
qed

lemma round24_nonneg:
  assumes "0 \<le> m"
  shows "0 \<le> valueOf (round24 m e)"
  using round24_cases [OF assms, of e] assms
  by (auto simp add: valueOf_nonneg)

lemma round24_error:
  assumes "0 \<le> m"
  shows "\<bar>valueOf (round24 m e) - valueOf (m, e)\<bar> \<le> valueOf (m, e) / 2 ^ 24"
proof -
  from assms have v0: "0 \<le> valueOf (m, e)" by (simp add: valueOf_nonneg)
  from round24_cases [OF assms, of e]
  consider (exact) "round24 m e = (m, e)"
    | (rounded) s q' where "0 < s" "round24 m e = (q', e + int s)" "0 \<le> q'"
        "q' * 2 ^ s \<le> m + 2 ^ (s - 1)" "m - 2 ^ (s - 1) \<le> q' * 2 ^ s"
        "2 ^ (s - 1) * 2 ^ 24 \<le> m"
    by blast
  then show ?thesis
  proof cases
    case exact
    with v0 show ?thesis by simp
  next
    case (rounded s q')
    have r: "valueOf (round24 m e) = valueOf (q' * 2 ^ s, e)"
      by (simp add: rounded(2) valueOf_shift)
    have h: "valueOf (2 ^ (s - 1), e) \<le> valueOf (m, e) / 2 ^ 24"
    proof -
      have "valueOf (2 ^ (s - 1) * 2 ^ 24, e) \<le> valueOf (m, e)"
        using rounded(6) by (simp only: valueOf_le)
      then have "valueOf (2 ^ (s - 1), e) * 2 ^ 24 \<le> valueOf (m, e)"
        by (simp add: valueOf_def algebra_simps)
      then show ?thesis
        by (simp add: field_simps)
    qed
    have "valueOf (q' * 2 ^ s, e) \<le> valueOf (m + 2 ^ (s - 1), e)"
      using rounded(4) by (simp only: valueOf_le)
    also have "\<dots> = valueOf (m, e) + valueOf (2 ^ (s - 1), e)"
      by (rule valueOf_add)
    finally have up: "valueOf (round24 m e) - valueOf (m, e) \<le> valueOf (2 ^ (s - 1), e)"
      by (simp add: r)
    have "valueOf (m - 2 ^ (s - 1), e) \<le> valueOf (q' * 2 ^ s, e)"
      using rounded(5) by (simp only: valueOf_le)
    moreover have "valueOf (m - 2 ^ (s - 1), e) = valueOf (m, e) - valueOf (2 ^ (s - 1), e)"
      by (simp add: valueOf_def algebra_simps)
    ultimately have dn: "- valueOf (2 ^ (s - 1), e) \<le> valueOf (round24 m e) - valueOf (m, e)"
      by (simp add: r)
    from up dn h show ?thesis by linarith
  qed
qed

lemma round24_upper:
  assumes "0 \<le> m"
  shows "valueOf (round24 m e) \<le> valueOf (m, e) * (1 + 1 / 2 ^ 24)"
proof -
  from round24_error [OF assms, of e]
  have "valueOf (round24 m e) \<le> valueOf (m, e) + valueOf (m, e) / 2 ^ 24"
    by linarith
  then show ?thesis
    by (simp add: algebra_simps)
qed

lemma fadd_round:
  "fadd a b = Some r \<Longrightarrow>
     \<exists>m e. r = round24 m e \<and> valueOf (m, e) = valueOf a + valueOf b"
proof -
  assume f: "fadd a b = Some r"
  define e where "e = min (snd a) (snd b)"
  define m where "m = fst a * 2 ^ nat (snd a - e) + fst b * 2 ^ nat (snd b - e)"
  have "valueOf (m, e) = valueOf (fst a * 2 ^ nat (snd a - e), e) + valueOf (fst b * 2 ^ nat (snd b - e), e)"
    unfolding m_def by (rule valueOf_add)
  also have "valueOf (fst a * 2 ^ nat (snd a - e), e) = valueOf a"
    using valueOf_align [of e "snd a" "fst a"] by (simp add: e_def)
  also have "valueOf (fst b * 2 ^ nat (snd b - e), e) = valueOf b"
    using valueOf_align [of e "snd b" "fst b"] by (simp add: e_def)
  finally have v: "valueOf (m, e) = valueOf a + valueOf b" .
  from f have "r = round24 m e"
    by (simp add: fadd_def Let_def e_def m_def split: if_splits)
  with v show ?thesis by blast
qed

lemma fadd_returns:
  assumes "0 \<le> valueOf a + valueOf b" and "valueOf a + valueOf b \<le> 2 ^ 18"
  shows "\<exists>r. fadd a b = Some r \<and> 0 \<le> valueOf r
           \<and> valueOf r \<le> (valueOf a + valueOf b) * (1 + 1 / 2 ^ 24)
           \<and> \<bar>valueOf r - (valueOf a + valueOf b)\<bar> \<le> (valueOf a + valueOf b) / 2 ^ 24"
proof -
  define e where "e = min (snd a) (snd b)"
  define m where "m = fst a * 2 ^ nat (snd a - e) + fst b * 2 ^ nat (snd b - e)"
  have "valueOf (m, e) = valueOf (fst a * 2 ^ nat (snd a - e), e) + valueOf (fst b * 2 ^ nat (snd b - e), e)"
    unfolding m_def by (rule valueOf_add)
  also have "valueOf (fst a * 2 ^ nat (snd a - e), e) = valueOf a"
    using valueOf_align [of e "snd a" "fst a"] by (simp add: e_def)
  also have "valueOf (fst b * 2 ^ nat (snd b - e), e) = valueOf b"
    using valueOf_align [of e "snd b" "fst b"] by (simp add: e_def)
  finally have v: "valueOf (m, e) = valueOf a + valueOf b" .
  with assms(1) have m0: "0 \<le> m"
    using valueOf_nonneg [of m e] by simp
  have lo: "0 \<le> valueOf (round24 m e)"
    by (rule round24_nonneg [OF m0])
  have er: "\<bar>valueOf (round24 m e) - (valueOf a + valueOf b)\<bar> \<le> (valueOf a + valueOf b) / 2 ^ 24"
    using round24_error [OF m0, of e] by (simp only: v)
  have up: "valueOf (round24 m e) \<le> (valueOf a + valueOf b) * (1 + 1 / 2 ^ 24)"
    using round24_upper [OF m0, of e] by (simp add: v)
  also from assms(2) have "\<dots> \<le> 2 ^ 18 * (1 + 1 / 2 ^ 24)"
    by (intro mult_right_mono) simp_all
  also have "\<dots> < 2 ^ 128" by simp
  finally have "finite32 (round24 m e)"
    using lo by (simp add: finite32_valueOf)
  then have "fadd a b = Some (round24 m e)"
    by (simp add: fadd_def Let_def e_def m_def)
  with lo up er show ?thesis by blast
qed

lemma fsub_returns:
  assumes "valueOf b \<le> valueOf a" and "valueOf a - valueOf b \<le> 2 ^ 18"
  shows "\<exists>r. fsub a b = Some r \<and> 0 \<le> valueOf r
           \<and> valueOf r \<le> (valueOf a - valueOf b) * (1 + 1 / 2 ^ 24)
           \<and> \<bar>valueOf r - (valueOf a - valueOf b)\<bar> \<le> (valueOf a - valueOf b) / 2 ^ 24"
proof -
  have n: "valueOf (- fst b, snd b) = - valueOf b"
    using valueOf_neg [of "fst b" "snd b"] by simp
  from assms have "0 \<le> valueOf a + valueOf (- fst b, snd b)"
    "valueOf a + valueOf (- fst b, snd b) \<le> 2 ^ 18"
    by (simp_all add: n)
  from fadd_returns [OF this] show ?thesis
    by (simp add: fsub_def n)
qed

lemma fixedTimeStep32_value: "valueOf fixedTimeStep32 = 8947849 / 2 ^ 29"
  by (simp add: fixedTimeStep32_def valueOf_def powi2_neg)

lemma fixedLoop32_returns:
  "valueOf acc \<le> real k * (559241 / 2 ^ 29) \<Longrightarrow> 0 \<le> valueOf acc \<Longrightarrow> valueOf acc \<le> 2 ^ 18 \<Longrightarrow>
     \<exists>a n'. fixedLoop32 acc n = Some (a, n') \<and> 0 \<le> valueOf a \<and> valueOf a < valueOf fixedTimeStep32
       \<and> n \<le> n'
       \<and> \<bar>valueOf a + real (n' - n) * valueOf fixedTimeStep32 - valueOf acc\<bar>
           \<le> real (n' - n) * (valueOf acc / 2 ^ 24)"
proof (induction k arbitrary: acc n)
  case 0
  then have "valueOf acc < valueOf fixedTimeStep32"
    by (simp add: fixedTimeStep32_value)
  with "0.prems"(2) show ?case
    by (simp add: fixedLoop32.simps [of acc] fle_valueOf)
next
  case (Suc k)
  show ?case
  proof (cases "valueOf fixedTimeStep32 \<le> valueOf acc")
    case False
    with Suc.prems(2) show ?thesis
      by (simp add: fixedLoop32.simps [of acc] fle_valueOf)
  next
    case True
    define t where "t = valueOf fixedTimeStep32"
    have t0: "0 < t" by (simp add: t_def fixedTimeStep32_value)
    from Suc.prems(3) have "valueOf acc - valueOf fixedTimeStep32 \<le> 2 ^ 18"
      by (simp add: fixedTimeStep32_value)
    from fsub_returns [OF True this] obtain acc' where
      s: "fsub acc fixedTimeStep32 = Some acc'" and lo: "0 \<le> valueOf acc'"
      and up: "valueOf acc' \<le> (valueOf acc - valueOf fixedTimeStep32) * (1 + 1 / 2 ^ 24)"
      and er: "\<bar>valueOf acc' - (valueOf acc - valueOf fixedTimeStep32)\<bar>
                 \<le> (valueOf acc - valueOf fixedTimeStep32) / 2 ^ 24"
      by blast
    have "(valueOf acc - valueOf fixedTimeStep32) * (1 + 1 / 2 ^ 24)
        \<le> valueOf acc - valueOf fixedTimeStep32 + 2 ^ 18 / 2 ^ 24"
      using Suc.prems(3) by (simp add: fixedTimeStep32_value algebra_simps)
    with up have d: "valueOf acc' \<le> valueOf acc - 559241 / 2 ^ 29"
      by (simp add: fixedTimeStep32_value)
    with Suc.prems(1) have k: "valueOf acc' \<le> real k * (559241 / 2 ^ 29)"
      by (simp add: algebra_simps)
    from d Suc.prems(3) have b: "valueOf acc' \<le> 2 ^ 18" by simp
    from d have le: "valueOf acc' \<le> valueOf acc" by simp
    from Suc.IH [OF k lo b, of "Suc n"] obtain a n' where
      r: "fixedLoop32 acc' (Suc n) = Some (a, n')" "0 \<le> valueOf a" "valueOf a < valueOf fixedTimeStep32"
      and n: "Suc n \<le> n'"
      and e: "\<bar>valueOf a + real (n' - Suc n) * valueOf fixedTimeStep32 - valueOf acc'\<bar>
                \<le> real (n' - Suc n) * (valueOf acc' / 2 ^ 24)"
      by blast
    from n have c: "real (n' - n) = real (n' - Suc n) + 1"
      by (simp add: Suc_diff_Suc of_nat_diff)
    from le have "real (n' - Suc n) * (valueOf acc' / 2 ^ 24) \<le> real (n' - Suc n) * (valueOf acc / 2 ^ 24)"
      by (intro mult_left_mono) simp_all
    with e have e1: "\<bar>valueOf a + real (n' - Suc n) * t - valueOf acc'\<bar>
                \<le> real (n' - Suc n) * (valueOf acc / 2 ^ 24)"
      by (simp add: t_def)
    from er t0 have e2: "\<bar>valueOf acc' - (valueOf acc - t)\<bar> \<le> valueOf acc / 2 ^ 24"
      by (simp add: t_def)
    have "\<bar>valueOf a + real (n' - n) * t - valueOf acc\<bar>
        = \<bar>(valueOf a + real (n' - Suc n) * t - valueOf acc') + (valueOf acc' - (valueOf acc - t))\<bar>"
      by (simp add: c algebra_simps)
    also have "\<dots> \<le> real (n' - Suc n) * (valueOf acc / 2 ^ 24) + valueOf acc / 2 ^ 24"
      using e1 e2 by linarith
    also have "\<dots> = real (n' - n) * (valueOf acc / 2 ^ 24)"
      by (simp add: c algebra_simps)
    finally have "\<bar>valueOf a + real (n' - n) * valueOf fixedTimeStep32 - valueOf acc\<bar>
        \<le> real (n' - n) * (valueOf acc / 2 ^ 24)"
      by (simp add: t_def)
    moreover from n have "n \<le> n'" by simp
    moreover from True s r(1) have "fixedLoop32 acc n = Some (a, n')"
      by (simp add: fixedLoop32.simps [of acc] fle_valueOf)
    ultimately show ?thesis
      using r(2,3) by blast
  qed
qed

lemma accumulate32_returns:
  assumes "0 \<le> valueOf acc" and "valueOf acc < valueOf fixedTimeStep32"
    and "0 \<le> valueOf dt" and "valueOf dt \<le> D" and "D \<le> 2 ^ 17"
  shows "\<exists>a n. accumulate32 acc dt = Some (a, n) \<and> 0 \<le> valueOf a
           \<and> valueOf a < valueOf fixedTimeStep32
           \<and> \<bar>valueOf a + real n * valueOf fixedTimeStep32 - (valueOf acc + valueOf dt)\<bar>
               \<le> real (Suc n) * ((D + 1) / 2 ^ 24)"
proof -
  define t where "t = valueOf fixedTimeStep32"
  from assms have s: "0 \<le> valueOf acc + valueOf dt" "valueOf acc + valueOf dt \<le> 2 ^ 17 + 1"
    by (simp_all add: fixedTimeStep32_value)
  from assms have sD: "valueOf acc + valueOf dt \<le> D + 1 / 32"
    by (simp add: fixedTimeStep32_value)
  from s have "valueOf acc + valueOf dt \<le> 2 ^ 18" by simp
  from fadd_returns [OF s(1) this] obtain r where
    f: "fadd acc dt = Some r" and lo: "0 \<le> valueOf r"
    and up: "valueOf r \<le> (valueOf acc + valueOf dt) * (1 + 1 / 2 ^ 24)"
    and er: "\<bar>valueOf r - (valueOf acc + valueOf dt)\<bar> \<le> (valueOf acc + valueOf dt) / 2 ^ 24"
    by blast
  from s(2) have "(valueOf acc + valueOf dt) * (1 + 1 / 2 ^ 24) \<le> (2 ^ 17 + 1) * (1 + 1 / 2 ^ 24)"
    by (intro mult_right_mono) simp_all
  also have "\<dots> \<le> 2 ^ 18" by simp
  finally have b: "valueOf r \<le> 2 ^ 18" using up by simp
  have "(valueOf acc + valueOf dt) / 2 ^ 24 \<le> (2 ^ 17 + 1) / 2 ^ 24"
    using s(2) by (intro divide_right_mono) simp_all
  also have "\<dots> \<le> (1 / 2 :: real)" by simp
  finally have q: "(valueOf acc + valueOf dt) / 2 ^ 24 \<le> 1 / 2" .
  from er sD q have rD: "valueOf r \<le> D + 1"
    by linarith
  have "\<exists>k. valueOf r \<le> real k * (559241 / 2 ^ 29)"
  proof -
    obtain k :: nat where "valueOf r / (559241 / 2 ^ 29) \<le> real k"
      using real_arch_simple by blast
    then have "valueOf r \<le> real k * (559241 / 2 ^ 29)"
      by (simp add: field_simps)
    then show ?thesis ..
  qed
  then obtain k where "valueOf r \<le> real k * (559241 / 2 ^ 29)" ..
  from fixedLoop32_returns [OF this lo b, of 0] obtain a n where
    l: "fixedLoop32 r 0 = Some (a, n)" "0 \<le> valueOf a" "valueOf a < valueOf fixedTimeStep32"
    and e: "\<bar>valueOf a + real n * t - valueOf r\<bar> \<le> real n * (valueOf r / 2 ^ 24)"
    by (auto simp add: t_def)
  define c where "c = (D + 1) / 2 ^ 24"
  from rD have "real n * (valueOf r / 2 ^ 24) \<le> real n * c"
    unfolding c_def by (intro mult_left_mono divide_right_mono) simp_all
  with e have e1: "\<bar>valueOf a + real n * t - valueOf r\<bar> \<le> real n * c"
    by simp
  from sD have "(valueOf acc + valueOf dt) / 2 ^ 24 \<le> c"
    unfolding c_def by (intro divide_right_mono) simp_all
  with er have e2: "\<bar>valueOf r - (valueOf acc + valueOf dt)\<bar> \<le> c"
    by simp
  have "\<bar>valueOf a + real n * t - (valueOf acc + valueOf dt)\<bar>
      = \<bar>(valueOf a + real n * t - valueOf r) + (valueOf r - (valueOf acc + valueOf dt))\<bar>"
    by simp
  also have "\<dots> \<le> real n * c + c"
    using e1 e2 by linarith
  also have "\<dots> = real (Suc n) * c"
    by (simp add: algebra_simps)
  finally have "\<bar>valueOf a + real n * valueOf fixedTimeStep32 - (valueOf acc + valueOf dt)\<bar>
      \<le> real (Suc n) * ((D + 1) / 2 ^ 24)"
    unfolding t_def c_def .
  with l f show ?thesis
    by (simp add: accumulate32_def)
qed

lemma fixedTimeStep32_nearest:
  "isBinary32 fixedTimeStep32 \<and> \<bar>valueOf fixedTimeStep32 - 1 / 60\<bar> < 1 / 2 ^ 30
   \<and> 1 / 60 < valueOf fixedTimeStep32"
proof -
  have "isBinary32 fixedTimeStep32"
    by (simp add: isBinary32_def finite32_def fixedTimeStep32_def)
  moreover have "\<bar>valueOf fixedTimeStep32 - 1 / 60\<bar> < 1 / 2 ^ 30"
    by (simp add: fixedTimeStep32_value)
  moreover have "1 / 60 < valueOf fixedTimeStep32"
    by (simp add: fixedTimeStep32_value)
  ultimately show ?thesis by blast
qed

lemma run32_returns:
  "\<forall>dt \<in> set dts. 0 \<le> valueOf dt \<and> valueOf dt \<le> D \<Longrightarrow> D \<le> 2 ^ 17 \<Longrightarrow>
   0 \<le> valueOf acc \<Longrightarrow> valueOf acc < valueOf fixedTimeStep32 \<Longrightarrow>
     \<exists>a ns. run32 dts acc = Some (a, ns) \<and> length ns = length dts
       \<and> 0 \<le> valueOf a \<and> valueOf a < valueOf fixedTimeStep32
       \<and> \<bar>valueOf a + real (sum_list ns) * valueOf fixedTimeStep32
            - (valueOf acc + sum_list (map valueOf dts))\<bar>
           \<le> real (length dts + sum_list ns) * ((D + 1) / 2 ^ 24)"
proof (induction dts arbitrary: acc)
  case Nil
  then show ?case by simp
next
  case (Cons dt dts)
  define t where "t = valueOf fixedTimeStep32"
  define c where "c = (D + 1) / 2 ^ 24"
  from Cons.prems(1) have d: "0 \<le> valueOf dt" "valueOf dt \<le> D"
    and r: "\<forall>dt \<in> set dts. 0 \<le> valueOf dt \<and> valueOf dt \<le> D"
    by simp_all
  from accumulate32_returns [OF Cons.prems(3,4) d Cons.prems(2)] obtain a n where
    a: "accumulate32 acc dt = Some (a, n)" "0 \<le> valueOf a" "valueOf a < valueOf fixedTimeStep32"
    and e1: "\<bar>valueOf a + real n * t - (valueOf acc + valueOf dt)\<bar> \<le> real (Suc n) * c"
    unfolding t_def c_def by blast
  from Cons.IH [OF r Cons.prems(2) a(2,3)] obtain a' ns where
    s: "run32 dts a = Some (a', ns)" "length ns = length dts"
    "0 \<le> valueOf a'" "valueOf a' < valueOf fixedTimeStep32"
    and e2: "\<bar>valueOf a' + real (sum_list ns) * t - (valueOf a + sum_list (map valueOf dts))\<bar>
               \<le> real (length dts + sum_list ns) * c"
    unfolding t_def c_def by blast
  have "\<bar>valueOf a' + real (sum_list (n # ns)) * t - (valueOf acc + sum_list (map valueOf (dt # dts)))\<bar>
      = \<bar>(valueOf a' + real (sum_list ns) * t - (valueOf a + sum_list (map valueOf dts)))
          + (valueOf a + real n * t - (valueOf acc + valueOf dt))\<bar>"
    by (simp add: algebra_simps)
  also have "\<dots> \<le> real (length dts + sum_list ns) * c + real (Suc n) * c"
    using e1 e2 by linarith
  also have "\<dots> = real (length (dt # dts) + sum_list (n # ns)) * c"
    by (simp add: algebra_simps)
  finally have "\<bar>valueOf a' + real (sum_list (n # ns)) * valueOf fixedTimeStep32
        - (valueOf acc + sum_list (map valueOf (dt # dts)))\<bar>
      \<le> real (length (dt # dts) + sum_list (n # ns)) * ((D + 1) / 2 ^ 24)"
    unfolding t_def c_def .
  moreover from a(1) s(1) have "run32 (dt # dts) acc = Some (a', n # ns)"
    by simp
  moreover from s(2) have "length (n # ns) = length (dt # dts)"
    by simp
  ultimately show ?case
    using s(3,4) by blast
qed

lemma steps_near:
  fixes t :: real
  assumes t: "0 < t" and lo: "0 \<le> a" and up: "a < t"
    and e: "\<bar>a + real N * t - S\<bar> \<le> b" and s: "S = real k * t - h" and h: "0 \<le> h"
    and b: "b + h < t"
  shows "N = k \<or> Suc N = k"
proof -
  from e s have e1: "(real N - real k) * t \<le> b - a - h" and e2: "- b - a - h \<le> (real N - real k) * t"
    by (simp_all add: abs_le_iff algebra_simps)
  from e1 lo h b have "(real N - real k) * t < 1 * t" by simp
  with t have u: "real N - real k < 1"
    by (simp only: mult_less_cancel_right_pos)
  from e2 up h b have "(- 2) * t < (real N - real k) * t" by simp
  with t have l: "- 2 < real N - real k"
    by (simp only: mult_less_cancel_right_pos)
  from u l show ?thesis by linarith
qed

text \<open>
  Claim C2 (as amended). Take any sequence of frames whose \<open>deltaTime\<close> values are
  binary32 numbers in (0, D] with D at most 2^17, and start from accumulator 0. Every
  frame's fixed-step loop returns and leaves the accumulator in [0, fixedTimeStep), where
  fixedTimeStep is the binary32 value of \<open>1.0f / 60.0f\<close>, which lies above 1/60. The
  accumulator plus fixedTimeStep for every step run differs from the exact sum of the
  \<open>deltaTime\<close> values by at most (D + 1) / 2^24 for every frame and every step. If the
  \<open>deltaTime\<close> values sum to exactly k / 60 and that bound, together with k times the
  excess of fixedTimeStep over 1/60, stays below fixedTimeStep, the loop body has run k
  or k - 1 times in total. If the \<open>deltaTime\<close> values sum to exactly k * fixedTimeStep and
  the final accumulator has lost nothing to rounding, the loop body has run exactly k
  times and the accumulator is 0.
\<close>

theorem run32_steps:
  assumes "\<forall>dt \<in> set dts. isBinary32 dt \<and> 0 < valueOf dt \<and> valueOf dt \<le> D"
    and "D \<le> 2 ^ 17"
  shows "\<exists>a ns. run32 dts zero32 = Some (a, ns) \<and> length ns = length dts
       \<and> 0 \<le> valueOf a \<and> valueOf a < valueOf fixedTimeStep32
       \<and> \<bar>valueOf a + real (sum_list ns) * valueOf fixedTimeStep32 - sum_list (map valueOf dts)\<bar>
           \<le> real (length dts + sum_list ns) * ((D + 1) / 2 ^ 24)
       \<and> (sum_list (map valueOf dts) = real k * (1 / 60)
            \<and> real (length dts + sum_list ns) * ((D + 1) / 2 ^ 24)
                + real k * (valueOf fixedTimeStep32 - 1 / 60) < valueOf fixedTimeStep32
          \<longrightarrow> sum_list ns = k \<or> Suc (sum_list ns) = k)
       \<and> (valueOf a = sum_list (map valueOf dts) - real (sum_list ns) * valueOf fixedTimeStep32
            \<and> sum_list (map valueOf dts) = real k * valueOf fixedTimeStep32
          \<longrightarrow> sum_list ns = k \<and> valueOf a = 0)"
proof -
  define t where "t = valueOf fixedTimeStep32"
  have t: "0 < t" by (simp add: t_def fixedTimeStep32_value)
  from assms(1) have h: "\<forall>dt \<in> set dts. 0 \<le> valueOf dt \<and> valueOf dt \<le> D"
    by auto
  have z0: "valueOf zero32 = 0"
    by (simp add: zero32_def valueOf_def)
  then have z: "0 \<le> valueOf zero32" "valueOf zero32 < valueOf fixedTimeStep32"
    by (simp_all add: fixedTimeStep32_value)
  from run32_returns [OF h assms(2) z] obtain a ns where
    r: "run32 dts zero32 = Some (a, ns)" "length ns = length dts"
    and lo: "0 \<le> valueOf a" and up: "valueOf a < t"
    and er: "\<bar>valueOf a + real (sum_list ns) * t - sum_list (map valueOf dts)\<bar>
           \<le> real (length dts + sum_list ns) * ((D + 1) / 2 ^ 24)"
    unfolding t_def by (auto simp add: z0)
  have near: "sum_list ns = k \<or> Suc (sum_list ns) = k"
    if s: "sum_list (map valueOf dts) = real k * (1 / 60)"
      and b: "real (length dts + sum_list ns) * ((D + 1) / 2 ^ 24) + real k * (t - 1 / 60) < t"
  proof -
    have "1 / 60 < t" by (simp add: t_def fixedTimeStep32_value)
    then have h0: "0 \<le> real k * (t - 1 / 60)" by simp
    from s have s': "sum_list (map valueOf dts) = real k * t - real k * (t - 1 / 60)"
      by (simp add: algebra_simps)
    from steps_near [OF t lo up er s' h0 b] show ?thesis .
  qed
  have exact: "sum_list ns = k \<and> valueOf a = 0"
    if e: "valueOf a = sum_list (map valueOf dts) - real (sum_list ns) * t"
      and s: "sum_list (map valueOf dts) = real k * t"
  proof -
    from e s have a: "valueOf a = (real k - real (sum_list ns)) * t"
      by (simp add: algebra_simps)
    with lo t have "0 \<le> real k - real (sum_list ns)"
      by (simp add: zero_le_mult_iff)
    moreover from a up t have "(real k - real (sum_list ns)) * t < 1 * t"
      by simp
    with t have "real k - real (sum_list ns) < 1"
      by (simp only: mult_less_cancel_right_pos)
    ultimately have "sum_list ns = k" by linarith
    with a show ?thesis by simp
  qed
  from r lo up er near exact show ?thesis
    unfolding t_def by blast
qed

text \<open>
  Witness for C2: frames of fixedTimeStep and of twice fixedTimeStep run 1 and 2 steps
  without rounding and return the accumulator to 0; a single frame of 1/4 = 15/60 runs
  15 steps and leaves 6 * 2^-29 in the accumulator.
\<close>

theorem run32_steps_witness:
  "isBinary32 fixedTimeStep32 \<and> 0 < valueOf fixedTimeStep32 \<and> valueOf fixedTimeStep32 \<le> 1 / 16
   \<and> isBinary32 (8947849, - 28) \<and> 0 < valueOf (8947849, - 28) \<and> valueOf (8947849, - 28) \<le> 1 / 16
   \<and> (1 / 16 :: real) \<le> 2 ^ 17
   \<and> run32 [fixedTimeStep32, (8947849, - 28)] zero32 = Some ((0, - 29), [1, 2])
   \<and> sum_list (map valueOf [fixedTimeStep32, (8947849, - 28)]) = real 3 * valueOf fixedTimeStep32
   \<and> valueOf (0, - 29) = 0
   \<and> sum_list [1, 2] = (3::nat)
   \<and> isBinary32 (1, - 2) \<and> 0 < valueOf (1, - 2) \<and> valueOf (1, - 2) \<le> 1 / 4
   \<and> (1 / 4 :: real) \<le> 2 ^ 17
   \<and> run32 [(1, - 2)] zero32 = Some ((6, - 29), [15])
   \<and> sum_list (map valueOf [(1, - 2)]) = real 15 * (1 / 60)
   \<and> real (length [(1, - 2) :: float32] + sum_list [15]) * ((1 / 4 + 1) / 2 ^ 24)
        + real 15 * (valueOf fixedTimeStep32 - 1 / 60) < valueOf fixedTimeStep32
   \<and> \<bar>valueOf (6, - 29) + real (sum_list [15]) * valueOf fixedTimeStep32
        - sum_list (map valueOf [(1, - 2)])\<bar>
        \<le> real (length [(1, - 2) :: float32] + sum_list [15]) * ((1 / 4 + 1) / 2 ^ 24)
   \<and> (sum_list [15] = (15::nat) \<or> Suc (sum_list [15]) = 15)"
proof -
  have b: "isBinary32 fixedTimeStep32" "isBinary32 (8947849, - 28)" "isBinary32 (1, - 2)"
    by (simp_all add: isBinary32_def finite32_def fixedTimeStep32_def)
  have v: "valueOf (8947849, - 28) = 8947849 / 2 ^ 28" "valueOf (1, - 2) = 1 / 4"
    by (simp_all add: valueOf_def powi2_neg)
  have p: "0 < valueOf fixedTimeStep32" "valueOf fixedTimeStep32 \<le> 1 / 16"
    "0 < valueOf (8947849, - 28)" "valueOf (8947849, - 28) \<le> 1 / 16"
    "0 < valueOf (1, - 2)" "valueOf (1, - 2) \<le> 1 / 4"
    by (simp_all add: fixedTimeStep32_value v)
  have D: "(1 / 16 :: real) \<le> 2 ^ 17" "(1 / 4 :: real) \<le> 2 ^ 17"
    by simp_all
  from b p have h: "\<forall>dt \<in> set [fixedTimeStep32, (8947849, - 28)].
      isBinary32 dt \<and> 0 < valueOf dt \<and> valueOf dt \<le> 1 / 16"
    by simp
  from b p have h': "\<forall>dt \<in> set [(1, - 2)].
      isBinary32 dt \<and> 0 < valueOf dt \<and> valueOf dt \<le> 1 / 4"
    by simp
  have r: "run32 [fixedTimeStep32, (8947849, - 28)] zero32 = Some ((0, - 29), [1, 2])"
    by code_simp
  have r': "run32 [(1, - 2)] zero32 = Some ((6, - 29), [15])"
    by code_simp
  have s: "sum_list (map valueOf [fixedTimeStep32, (8947849, - 28)]) = real 3 * valueOf fixedTimeStep32"
    by (simp add: fixedTimeStep32_value v)
  have s': "sum_list (map valueOf [(1, - 2)]) = real 15 * (1 / 60)"
    by (simp add: v)
  have z: "valueOf (0, - 29) = 0"
    by (simp add: valueOf_def)
  have c': "real (length [(1, - 2) :: float32] + sum_list [15]) * ((1 / 4 + 1) / 2 ^ 24)
        + real 15 * (valueOf fixedTimeStep32 - 1 / 60) < valueOf fixedTimeStep32"
    by (simp add: fixedTimeStep32_value)
  from run32_steps [OF h D(1), of 3] r
  have "valueOf (0, - 29) = sum_list (map valueOf [fixedTimeStep32, (8947849, - 28)])
            - real (sum_list [1, 2]) * valueOf fixedTimeStep32
            \<and> sum_list (map valueOf [fixedTimeStep32, (8947849, - 28)]) = real 3 * valueOf fixedTimeStep32
          \<longrightarrow> sum_list [1, 2] = (3::nat) \<and> valueOf (0, - 29) = 0"
    by auto
  with s z have n: "sum_list [1, 2] = (3::nat)"
    by (simp add: fixedTimeStep32_value v)
  from run32_steps [OF h' D(2), of 15] r'
  have e': "\<bar>valueOf (6, - 29) + real (sum_list [15]) * valueOf fixedTimeStep32
        - sum_list (map valueOf [(1, - 2)])\<bar>
        \<le> real (length [(1, - 2) :: float32] + sum_list [15]) * ((1 / 4 + 1) / 2 ^ 24)"
    and i': "sum_list (map valueOf [(1, - 2)]) = real 15 * (1 / 60)
            \<and> real (length [(1, - 2) :: float32] + sum_list [15]) * ((1 / 4 + 1) / 2 ^ 24)
                + real 15 * (valueOf fixedTimeStep32 - 1 / 60) < valueOf fixedTimeStep32
          \<longrightarrow> sum_list [15] = (15::nat) \<or> Suc (sum_list [15]) = 15"
    by auto
  from i' s' c' have n': "sum_list [15] = (15::nat) \<or> Suc (sum_list [15]) = 15"
    by blast
  from b p D r s z n r' s' c' e' n' show ?thesis
    by (intro conjI)
qed

text \<open>
  Counterexample to C2 as stated: frames of 1/8, 3/64 and 5/64, and likewise 16 frames
  of 1/64, sum to exactly 15/60, yet the loop body runs 14 times and the accumulator ends
  just below fixedTimeStep.
\<close>

theorem run32_steps_counterexample:
  "run32 [(1, - 3), (3, - 6), (5, - 6)] zero32 = Some ((8947847, - 29), [7, 3, 4])
   \<and> sum_list (map valueOf [(1, - 3), (3, - 6), (5, - 6)]) = real 15 * (1 / 60)
   \<and> sum_list [7, 3, 4] = (14::nat)
   \<and> run32 (replicate 16 (1, - 6)) zero32
       = Some ((8947842, - 29), [0, 1, 1, 1, 1, 1, 1, 1, 1, 1, 1, 1, 1, 1, 1, 0])
   \<and> sum_list (map valueOf (replicate 16 (1, - 6))) = real 15 * (1 / 60)
   \<and> sum_list [0, 1, 1, 1, 1, 1, 1, 1, 1, 1, 1, 1, 1, 1, 1, 0] = (14::nat)
   \<and> valueOf (8947842, - 29) \<noteq> 0"
proof -
  have a: "run32 [(1, - 3), (3, - 6), (5, - 6)] zero32 = Some ((8947847, - 29), [7, 3, 4])"
    by code_simp
  have b: "sum_list (map valueOf [(1, - 3), (3, - 6), (5, - 6)]) = real 15 * (1 / 60)"
    by (simp add: valueOf_def powi2_neg)
  have c: "run32 (replicate 16 (1, - 6)) zero32
       = Some ((8947842, - 29), [0, 1, 1, 1, 1, 1, 1, 1, 1, 1, 1, 1, 1, 1, 1, 0])"
    by code_simp
  have d: "sum_list (map valueOf (replicate 16 (1, - 6))) = real 15 * (1 / 60)"
    by (simp add: valueOf_def powi2_neg sum_list_replicate)
  have e: "valueOf (8947842, - 29) \<noteq> 0"
    by (simp add: valueOf_def)
  from a b c d e show ?thesis
    by simp
qed

text \<open>
  Claim C3. In a frame whose wall-clock delta \<open>now - lastTime\<close> is zero or negative,
  the delta used is the fallback 1/60: it is what \<open>deltaTime\<close> holds afterwards, and the
  game update, the accumulator and the interpolation of that frame are those of a frame
  run with delta 1/60. The delta used is positive in every frame.
\<close>

theorem frame_fallback_delta:
  assumes "now - lastTime e \<le> 0"
  shows "effectiveDelta (now - lastTime e) = 1 / 60
       \<and> frame g now e = frameWith g (1 / 60) now e
       \<and> deltaTime (fst (frame g now e)) = 1 / 60
       \<and> 0 < deltaTime (fst (frame g' now' e'))"
proof -
  from assms have d: "effectiveDelta (now - lastTime e) = 1 / 60"
    by (simp add: effectiveDelta_def)
  have dt: "deltaTime (fst (frameWith h x t s)) = x" for h x t s
    by (simp add: frameWith_def split: prod.splits)
  have pos: "0 < effectiveDelta x" for x
    by (simp add: effectiveDelta_def)
  have fr: "frame g now e = frameWith g (1 / 60) now e"
    unfolding frame_def d ..
  have used: "deltaTime (fst (frame g now e)) = 1 / 60"
    unfolding fr by (rule dt)
  have "0 < deltaTime (fst (frame g' now' e'))"
    unfolding frame_def dt by (rule pos)
  with d fr used show ?thesis
    by blast
qed

text \<open>Witness for C3: a frame of the example whose clock has not advanced.\<close>

theorem frame_fallback_delta_witness:
  "0 - lastTime exEngine \<le> 0 \<and> deltaTime (fst (frame exGame 0 exEngine)) = 1 / 60
   \<and> frame exGame 0 exEngine = frameWith exGame (1 / 60) 0 exEngine"
proof -
  have h: "0 - lastTime exEngine \<le> 0"
    by (simp add: exEngine_def)
  from frame_fallback_delta [OF h, of exGame exGame 0 exEngine] h show ?thesis
    by blast
qed

subsection \<open>Claims on the collision and physics adapter\<close>

lemma createBody_Some:
  assumes "createBody meshBuilds defaults libCreateBody store collider rigidbody
             = Some (bodyID, settings, activation)"
  shows "mMotionType settings = determineMotionType rigidbody"
  using assms
  by (auto simp add: createBody_def bodySettings_def Let_def split: option.splits if_splits)

text \<open>
  Claim C5. Whenever \<open>createBody\<close> creates a body, its motion type is Static if no
  Rigidbody was passed, Kinematic if the Rigidbody has \<open>isKinematic\<close> set, and Dynamic
  otherwise; each motion type arises in exactly one of the three cases. The Rigidbody
  passed by \<open>initialize\<close> is the sibling found on the collider's owner.
\<close>

theorem createBody_motion_type:
  assumes "createBody meshBuilds defaults libCreateBody store collider rigidbody
             = Some (bodyID, settings, activation)"
  shows "(rigidbody = None \<longrightarrow> mMotionType settings = Static)
       \<and> (\<forall>rb. rigidbody = Some rb \<and> isKinematic rb \<longrightarrow> mMotionType settings = Kinematic)
       \<and> (\<forall>rb. rigidbody = Some rb \<and> \<not> isKinematic rb \<longrightarrow> mMotionType settings = Dynamic)
       \<and> (mMotionType settings = Static) = (rigidbody = None)
       \<and> (mMotionType settings = Kinematic) = (\<exists>rb. rigidbody = Some rb \<and> isKinematic rb)
       \<and> (mMotionType settings = Dynamic) = (\<exists>rb. rigidbody = Some rb \<and> \<not> isKinematic rb)
       \<and> (\<forall>col ob. collider = Some col \<and> owner col = Some ob
              \<and> rigidbody = getRigidbody (goComponents (store ob))
            \<longrightarrow> initializeCollider meshBuilds defaults libCreateBody store col
                  = Some (bodyID, settings, activation))"
proof -
  note m = createBody_Some [OF assms]
  have a: "rigidbody = None \<longrightarrow> mMotionType settings = Static"
    by (simp add: m determineMotionType_def)
  have b: "\<forall>rb. rigidbody = Some rb \<and> isKinematic rb \<longrightarrow> mMotionType settings = Kinematic"
    by (simp add: m determineMotionType_def)
  have c: "\<forall>rb. rigidbody = Some rb \<and> \<not> isKinematic rb \<longrightarrow> mMotionType settings = Dynamic"
    by (simp add: m determineMotionType_def)
  have d: "(mMotionType settings = Static) = (rigidbody = None)"
    by (simp add: m determineMotionType_def split: option.splits)
  have e: "(mMotionType settings = Kinematic) = (\<exists>rb. rigidbody = Some rb \<and> isKinematic rb)"
    by (simp add: m determineMotionType_def split: option.splits)
  have f: "(mMotionType settings = Dynamic) = (\<exists>rb. rigidbody = Some rb \<and> \<not> isKinematic rb)"
    by (simp add: m determineMotionType_def split: option.splits)
  have g: "\<forall>col ob. collider = Some col \<and> owner col = Some ob
              \<and> rigidbody = getRigidbody (goComponents (store ob))
            \<longrightarrow> initializeCollider meshBuilds defaults libCreateBody store col
                  = Some (bodyID, settings, activation)"
    using assms by (auto simp add: initializeCollider_def)
  from a b c d e f g show ?thesis
    by (intro conjI)
qed

text \<open>
  Witness for C5: the example collider with its sibling Rigidbody (not kinematic) gets a
  Dynamic body, directly and through \<open>initialize\<close>.
\<close>

theorem createBody_motion_type_witness:
  "createBody (\<lambda>path. False) exDefaults (\<lambda>settings. Some 7) (\<lambda>ob. exPlayer) (Some exCollider) (Some exBody)
     = Some (7, bodySettings (\<lambda>path. False) exDefaults exPlayer exCollider (Some exBody), Activate)
   \<and> mMotionType (bodySettings (\<lambda>path. False) exDefaults exPlayer exCollider (Some exBody)) = Dynamic
   \<and> initializeCollider (\<lambda>path. False) exDefaults (\<lambda>settings. Some 7) (\<lambda>ob. exPlayer) exCollider
     = Some (7, bodySettings (\<lambda>path. False) exDefaults exPlayer exCollider (Some exBody), Activate)"
proof -
  have h: "createBody (\<lambda>path. False) exDefaults (\<lambda>settings. Some 7) (\<lambda>ob. exPlayer) (Some exCollider) (Some exBody)
     = Some (7, bodySettings (\<lambda>path. False) exDefaults exPlayer exCollider (Some exBody), Activate)"
    by (simp add: createBody_def bodySettings_def determineMotionType_def exCollider_def exBody_def Let_def)
  note t = createBody_motion_type [OF h]
  from t have dyn: "\<forall>rb. Some exBody = Some rb \<and> \<not> isKinematic rb \<longrightarrow>
      mMotionType (bodySettings (\<lambda>path. False) exDefaults exPlayer exCollider (Some exBody)) = Dynamic"
    by (elim conjE)
  from dyn [rule_format, of exBody]
  have m: "mMotionType (bodySettings (\<lambda>path. False) exDefaults exPlayer exCollider (Some exBody)) = Dynamic"
    by (simp add: exBody_def)
  from t have "\<forall>col ob. Some exCollider = Some col \<and> owner col = Some ob
              \<and> Some exBody = getRigidbody (goComponents (exPlayer))
            \<longrightarrow> initializeCollider (\<lambda>path. False) exDefaults (\<lambda>settings. Some 7) (\<lambda>ob. exPlayer) col
                  = Some (7, bodySettings (\<lambda>path. False) exDefaults exPlayer exCollider (Some exBody), Activate)"
    by (elim conjE)
  from this [rule_format, of exCollider 0]
  have i: "initializeCollider (\<lambda>path. False) exDefaults (\<lambda>settings. Some 7) (\<lambda>ob. exPlayer) exCollider
     = Some (7, bodySettings (\<lambda>path. False) exDefaults exPlayer exCollider (Some exBody), Activate)"
    by (simp add: exCollider_def exPlayer_def)
  from h m i show ?thesis
    by (intro conjI)
qed

text \<open>
  Claim C10. The result of \<open>raycast\<close> is the same for any two values of the layer
  mask, so the Ground mask of \<open>checkGrounded\<close> restricts nothing: for an object with a
  collider, \<open>checkGrounded\<close> reports exactly whether the ray cast under any other mask
  hits.
\<close>

theorem raycast_ignores_layerMask:
  "raycast q m origin direction maxDistance mask1 = raycast q m origin direction maxDistance mask2
   \<and> raycast q m origin direction maxDistance LayerGround
       = raycast q m origin direction maxDistance LayerAll
   \<and> (\<forall>ob collider. getCollider (goComponents (store ob)) = Some collider \<longrightarrow>
        fst (checkGrounded q m store (Some ob) d)
          = (case raycast q m (vadd (position (store ob)) (center collider)) (0, 0, - 1) d mask1 of
               None \<Rightarrow> False
             | Some h \<Rightarrow> hit h))"
proof -
  have any: "raycast q m origin direction maxDistance k1 = raycast q m origin direction maxDistance k2"
    for origin direction maxDistance k1 k2
    by (simp add: raycast_def)
  have g: "fst (checkGrounded q m store (Some ob) d)
          = (case raycast q m (vadd (position (store ob)) (center collider)) (0, 0, - 1) d mask1 of
               None \<Rightarrow> False
             | Some h \<Rightarrow> hit h)"
    if "getCollider (goComponents (store ob)) = Some collider" for ob collider
    using that any [of "vadd (position (store ob)) (center collider)" "(0, 0, - 1)" d LayerGround mask1]
    by (simp add: checkGrounded_def Let_def split: option.splits)
  from any g show ?thesis
    by blast
qed

text \<open>
  Witness for C10: the ray of \<open>checkGrounded\<close> hits a body that is not on the Ground
  layer and the object is reported grounded.
\<close>

theorem raycast_ignores_layerMask_witness:
  "getCollider (goComponents exPlayer) = Some exCollider
   \<and> collisionLayer exCollider AND LayerGround = 0
   \<and> raycast exQuery [7 \<mapsto> 0] (0, 0, 1) (0, 0, - 1) (1 / 10) LayerGround
       = raycast exQuery [7 \<mapsto> 0] (0, 0, 1) (0, 0, - 1) (1 / 10) LayerAll
   \<and> fst (checkGrounded exQuery [7 \<mapsto> 0] (\<lambda>ob. exPlayer) (Some 0) (1 / 10)) = True"
proof -
  have c: "getCollider (goComponents exPlayer) = Some exCollider"
    by (simp add: exPlayer_def)
  have l: "collisionLayer exCollider AND LayerGround = 0"
    by (simp add: exCollider_def LayerPlayer_def LayerGround_def)
  note t = raycast_ignores_layerMask [of exQuery "[7 \<mapsto> 0]" "(0, 0, 1)" "(0, 0, - 1)" "1 / 10"
      LayerAll LayerAll "\<lambda>ob. exPlayer" "1 / 10"]
  from t have r: "raycast exQuery [7 \<mapsto> 0] (0, 0, 1) (0, 0, - 1) (1 / 10) LayerGround
       = raycast exQuery [7 \<mapsto> 0] (0, 0, 1) (0, 0, - 1) (1 / 10) LayerAll"
    by (elim conjE)
  from t have "\<forall>ob collider. getCollider (goComponents exPlayer) = Some collider \<longrightarrow>
        fst (checkGrounded exQuery [7 \<mapsto> 0] (\<lambda>ob. exPlayer) (Some ob) (1 / 10))
          = (case raycast exQuery [7 \<mapsto> 0] (vadd (position exPlayer) (center collider)) (0, 0, - 1) (1 / 10) LayerAll of
               None \<Rightarrow> False
             | Some h \<Rightarrow> hit h)"
    by (elim conjE)
  from this [rule_format, of exCollider 0, OF c]
  have g: "fst (checkGrounded exQuery [7 \<mapsto> 0] (\<lambda>ob. exPlayer) (Some 0) (1 / 10)) = True"
    by (simp add: raycast_def normalize_def exQuery_def noHit_def exPlayer_def exCollider_def Let_def)
  from c l r g show ?thesis
    by (intro conjI)
qed

subsection \<open>Claims on the render pipeline\<close>








lemma silhouetteLoop_skip:
  assumes "getMeshComponent (goComponents (store ob)) = Some mc"
    and "getMeshByName meshes (meshName mc) = None"
  shows "silhouetteLoop meshes store k (xs @ ob # ys) = silhouetteLoop meshes store k (xs @ ys)"
  using assms by (induction xs arbitrary: k) (auto split: option.splits)

lemma mainLoop_skip:
  assumes "getMeshComponent (goComponents (store ob)) = Some mc"
    and "getMeshByName meshes (meshName mc) = None"
  shows "mainLoop meshes store (xs @ ob # ys) = mainLoop meshes store (xs @ ys)"
  using assms by (induction xs) (auto split: option.splits)

text \<open>
  Claim C9. When the swap-chain view cannot be acquired the blit pass records nothing and
  \<open>renderScene\<close> still completes: the command buffer it submits holds the silhouette, main
  and outline passes (and the debug and UI passes when present) and no blit pass. In the
  silhouette and main passes an object whose mesh name is not found is skipped: the draws
  are those of the scene without that object.
\<close>

theorem render_failure_semantics:
  "renderBlitPass None = []
   \<and> (\<exists>passes. renderScene meshes (Some sc) debugLines uiCallback None = Some passes
        \<and> renderScene meshes (Some sc) debugLines uiCallback (Some v)
            = Some (passes @ renderBlitPass (Some v))
        \<and> renderSilhouettePass meshes (objects sc) (gameObjects sc) \<in> set passes
        \<and> renderMainPass meshes (objects sc) (gameObjects sc) \<in> set passes
        \<and> renderOutlineComposePass \<in> set passes
        \<and> (\<forall>p \<in> set passes. pipeline p \<noteq> BlitPipeline))
   \<and> (getMeshComponent (goComponents (store ob)) = Some mc
        \<and> getMeshByName meshes (meshName mc) = None
      \<longrightarrow> silhouetteLoop meshes store k (xs @ ob # ys) = silhouetteLoop meshes store k (xs @ ys)
        \<and> mainLoop meshes store (xs @ ob # ys) = mainLoop meshes store (xs @ ys))"
proof -
  have a: "renderBlitPass None = []"
    by (simp add: renderBlitPass_def)
  have b: "\<exists>passes. renderScene meshes (Some sc) debugLines uiCallback None = Some passes
        \<and> renderScene meshes (Some sc) debugLines uiCallback (Some v)
            = Some (passes @ renderBlitPass (Some v))
        \<and> renderSilhouettePass meshes (objects sc) (gameObjects sc) \<in> set passes
        \<and> renderMainPass meshes (objects sc) (gameObjects sc) \<in> set passes
        \<and> renderOutlineComposePass \<in> set passes
        \<and> (\<forall>p \<in> set passes. pipeline p \<noteq> BlitPipeline)"
    by (auto simp add: renderScene_def a renderSilhouettePass_def renderMainPass_def
        renderOutlineComposePass_def renderDebugPass_def renderUIPass_def split: option.splits)
  from a b silhouetteLoop_skip mainLoop_skip show ?thesis
    by blast
qed

text \<open>
  Witness for C9: the ghost between two cubes is skipped in both passes.
\<close>

theorem render_failure_semantics_witness:
  "getMeshComponent (goComponents (exStore 1))
     = Some \<lparr>owner = Some 1, enabled = True, meshName = ''ghost'', color = (1, 1, 1, 1)\<rparr>
   \<and> getMeshByName exMeshes ''ghost'' = None
   \<and> silhouetteLoop exMeshes exStore 0 ([0] @ 1 # [2]) = silhouetteLoop exMeshes exStore 0 ([0] @ [2])
   \<and> mainLoop exMeshes exStore ([0] @ 1 # [2]) = mainLoop exMeshes exStore ([0] @ [2])
   \<and> length (mainLoop exMeshes exStore ([0] @ 1 # [2])) = 2
   \<and> renderBlitPass None = []"
proof -
  have h1: "getMeshComponent (goComponents (exStore 1))
     = Some \<lparr>owner = Some 1, enabled = True, meshName = ''ghost'', color = (1, 1, 1, 1)\<rparr>"
    by (simp add: exStore_def exGhost_def)
  have h2: "getMeshByName exMeshes (meshName \<lparr>owner = Some 1, enabled = True, meshName = ''ghost'', color = (1, 1, 1, 1)\<rparr>) = None"
    by (simp add: exMeshes_def)
  have l: "length (mainLoop exMeshes exStore ([0] @ 1 # [2])) = 2"
    by (simp add: exMeshes_def exStore_def exCube_def exGhost_def)
  note t = render_failure_semantics [of exMeshes exScene None None 0 exStore 1
      "\<lparr>owner = Some 1, enabled = True, meshName = ''ghost'', color = (1, 1, 1, 1)\<rparr>" 0 "[0]" "[2]"]
  from t h1 h2 have "silhouetteLoop exMeshes exStore 0 ([0] @ 1 # [2]) = silhouetteLoop exMeshes exStore 0 ([0] @ [2])
        \<and> mainLoop exMeshes exStore ([0] @ 1 # [2]) = mainLoop exMeshes exStore ([0] @ [2])"
    by blast
  moreover from t have "renderBlitPass None = []"
    by blast
  moreover from h2 have "getMeshByName exMeshes ''ghost'' = None"
    by simp
  ultimately show ?thesis using h1 l
    by blast
qed

lemma clamp01_range: "0 \<le> clamp01 x" "clamp01 x \<le> 1"
  by (simp_all add: clamp01_def)

lemma clamp01_id: "0 \<le> x \<Longrightarrow> x \<le> 1 \<Longrightarrow> clamp01 x = x"
  by (simp add: clamp01_def)

lemma window_bounds:
  assumes "0 < (z :: real)" "0 \<le> u" "u \<le> 1"
  shows "c - (1 / z) / 2 \<le> c - (1 / z) / 2 + u * (1 / z)"
    and "c - (1 / z) / 2 + u * (1 / z) \<le> c + (1 / z) / 2"
proof -
  from assms(1) have r: "0 < 1 / z" by simp
  with assms(2) have "0 \<le> u * (1 / z)" by simp
  then show "c - (1 / z) / 2 \<le> c - (1 / z) / 2 + u * (1 / z)" by simp
  from assms(3) r have "u * (1 / z) \<le> 1 * (1 / z)"
    by (intro mult_right_mono) simp_all
  then show "c - (1 / z) / 2 + u * (1 / z) \<le> c + (1 / z) / 2" by simp
qed

lemma zoomedUV_eq:
  assumes "zoom zp \<noteq> 0"
  shows "zoomedUV zp (u, v)
       = Some (clamp01 (centerX zp - (1 / zoom zp) / 2 + u * (1 / zoom zp)),
               clamp01 (centerY zp - (1 / zoom zp) / 2 + v * (1 / zoom zp)))"
  using assms by (simp add: zoomedUV_def Let_def algebra_simps)

text \<open>
  Claim C7. For a fragment of the blit pass with zoom z > 0, centre (cx, cy) and input
  coordinate in the unit square, the sampled coordinate is the input remapped into the
  window from centre - (1/z)/2 to centre + (1/z)/2 and then clamped componentwise to
  [0,1] (a value below 0 becomes 0, a value above 1 becomes 1, any other is kept); the
  colour returned is the single texel at the truncated product of that
  coordinate with the texture size. At zoom 2 about (1/2, 1/2) the sampled coordinates
  are exactly the square from 1/4 to 3/4 in both axes, a quarter of the frame's area.
\<close>

theorem blit_zoom_window:
  assumes "0 < zoom zp" and "0 \<le> u" and "u \<le> 1" and "0 \<le> v" and "v \<le> 1"
  shows "zoomedUV zp (u, v)
       = Some (clamp01 (centerX zp - (1 / zoom zp) / 2 + u * (1 / zoom zp)),
               clamp01 (centerY zp - (1 / zoom zp) / 2 + v * (1 / zoom zp)))
     \<and> centerX zp - (1 / zoom zp) / 2 \<le> centerX zp - (1 / zoom zp) / 2 + u * (1 / zoom zp)
     \<and> centerX zp - (1 / zoom zp) / 2 + u * (1 / zoom zp) \<le> centerX zp + (1 / zoom zp) / 2
     \<and> centerY zp - (1 / zoom zp) / 2 \<le> centerY zp - (1 / zoom zp) / 2 + v * (1 / zoom zp)
     \<and> centerY zp - (1 / zoom zp) / 2 + v * (1 / zoom zp) \<le> centerY zp + (1 / zoom zp) / 2
     \<and> (\<forall>x. 0 \<le> clamp01 x \<and> clamp01 x \<le> 1 \<and> (0 \<le> x \<and> x \<le> 1 \<longrightarrow> clamp01 x = x)
            \<and> (x < 0 \<longrightarrow> clamp01 x = 0) \<and> (1 < x \<longrightarrow> clamp01 x = 1))
     \<and> blit_fs_main textureLoad (w, h) zp (u, v)
         = Some (textureLoad
             (\<lfloor>clamp01 (centerX zp - (1 / zoom zp) / 2 + u * (1 / zoom zp)) * real w\<rfloor>,
              \<lfloor>clamp01 (centerY zp - (1 / zoom zp) / 2 + v * (1 / zoom zp)) * real h\<rfloor>))
     \<and> (zoom zp = 2 \<and> centerX zp = 1 / 2 \<and> centerY zp = 1 / 2 \<longrightarrow>
          zoomedUV zp (u, v) = Some (1 / 4 + u / 2, 1 / 4 + v / 2)
          \<and> 1 / 4 \<le> 1 / 4 + u / 2 \<and> 1 / 4 + u / 2 \<le> 3 / 4
          \<and> 1 / 4 \<le> 1 / 4 + v / 2 \<and> 1 / 4 + v / 2 \<le> 3 / 4
          \<and> (\<forall>x y. 1 / 4 \<le> x \<and> x \<le> 3 / 4 \<and> 1 / 4 \<le> y \<and> y \<le> 3 / 4 \<longrightarrow>
                zoomedUV zp (2 * x - 1 / 2, 2 * y - 1 / 2) = Some (x, y)
                \<and> 0 \<le> 2 * x - 1 / 2 \<and> 2 * x - 1 / 2 \<le> 1
                \<and> 0 \<le> 2 * y - 1 / 2 \<and> 2 * y - 1 / 2 \<le> 1)
          \<and> (3 / 4 - 1 / 4) * (3 / 4 - 1 / 4) = (1 / 4 :: real))"
proof -
  from assms(1) have nz: "zoom zp \<noteq> 0" by simp
  note e = zoomedUV_eq [OF nz]
  note bndx = window_bounds [OF assms(1,2,3), of "centerX zp"]
  note bndy = window_bounds [OF assms(1,4,5), of "centerY zp"]
  have cl: "\<forall>x. 0 \<le> clamp01 x \<and> clamp01 x \<le> 1 \<and> (0 \<le> x \<and> x \<le> 1 \<longrightarrow> clamp01 x = x)
            \<and> (x < 0 \<longrightarrow> clamp01 x = 0) \<and> (1 < x \<longrightarrow> clamp01 x = 1)"
    by (simp add: clamp01_range clamp01_id clamp01_def)
  have fs: "blit_fs_main textureLoad (w, h) zp (u, v)
         = Some (textureLoad
             (\<lfloor>clamp01 (centerX zp - (1 / zoom zp) / 2 + u * (1 / zoom zp)) * real w\<rfloor>,
              \<lfloor>clamp01 (centerY zp - (1 / zoom zp) / 2 + v * (1 / zoom zp)) * real h\<rfloor>))"
    by (simp add: blit_fs_main_def e truncate_i32_def clamp01_range)
  have two: "zoomedUV zp (u, v) = Some (1 / 4 + u / 2, 1 / 4 + v / 2)
          \<and> 1 / 4 \<le> 1 / 4 + u / 2 \<and> 1 / 4 + u / 2 \<le> 3 / 4
          \<and> 1 / 4 \<le> 1 / 4 + v / 2 \<and> 1 / 4 + v / 2 \<le> 3 / 4
          \<and> (\<forall>x y. 1 / 4 \<le> x \<and> x \<le> 3 / 4 \<and> 1 / 4 \<le> y \<and> y \<le> 3 / 4 \<longrightarrow>
                zoomedUV zp (2 * x - 1 / 2, 2 * y - 1 / 2) = Some (x, y)
                \<and> 0 \<le> 2 * x - 1 / 2 \<and> 2 * x - 1 / 2 \<le> 1
                \<and> 0 \<le> 2 * y - 1 / 2 \<and> 2 * y - 1 / 2 \<le> 1)
          \<and> (3 / 4 - 1 / 4) * (3 / 4 - 1 / 4) = (1 / 4 :: real)"
    if z: "zoom zp = 2" "centerX zp = 1 / 2" "centerY zp = 1 / 2"
  proof -
    have f: "zoomedUV zp (a, b) = Some (clamp01 (1 / 4 + a / 2), clamp01 (1 / 4 + b / 2))" for a b
      by (simp add: zoomedUV_eq [OF nz] z)
    from assms(2-5) have "zoomedUV zp (u, v) = Some (1 / 4 + u / 2, 1 / 4 + v / 2)"
      by (simp add: f clamp01_id)
    moreover have "zoomedUV zp (2 * x - 1 / 2, 2 * y - 1 / 2) = Some (x, y)"
      if "1 / 4 \<le> x" "x \<le> 3 / 4" "1 / 4 \<le> y" "y \<le> 3 / 4" for x y
    proof -
      have "1 / 4 + (2 * x - 1 / 2) / 2 = x" "1 / 4 + (2 * y - 1 / 2) / 2 = y"
        by (simp_all add: field_simps)
      with that show ?thesis
        by (simp add: f clamp01_id)
    qed
    ultimately show ?thesis
      using assms(2-5) by auto
  qed
  show ?thesis
    apply (rule conjI [OF e])
    apply (rule conjI [OF bndx(1)])
    apply (rule conjI [OF bndx(2)])
    apply (rule conjI [OF bndy(1)])
    apply (rule conjI [OF bndy(2)])
    apply (rule conjI [OF cl])
    apply (rule conjI [OF fs])
    apply (rule impI)
    apply (elim conjE)
    apply (rule two)
      apply assumption+
    done
qed

text \<open>
  Witness for C7: at zoom 2 about the centre the corner (1, 0) samples (3/4, 1/4), texel
  (480, 90) of a 640 by 360 frame; about the centre (9/10, 1/2) the same corner remaps to
  1.15 horizontally, which the clamp saturates to 1.
\<close>

theorem blit_zoom_window_witness:
  "0 < zoom exZoom \<and> (0::real) \<le> 1 \<and> (0::real) \<le> 0
   \<and> zoomedUV exZoom (1, 0) = Some (3 / 4, 1 / 4)
   \<and> blit_fs_main exTexture (640, 360) exZoom (1, 0) = Some (480, 90, 0, 1)
   \<and> 0 < zoom exZoomEdge
   \<and> centerX exZoomEdge - (1 / zoom exZoomEdge) / 2 + 1 * (1 / zoom exZoomEdge) = 115 / 100
   \<and> zoomedUV exZoomEdge (1, 0) = Some (1, 1 / 4)"
proof -
  have h1: "0 < zoom exZoom" by (simp add: exZoom_def)
  have h2: "(0::real) \<le> 1" "(1::real) \<le> 1" "(0::real) \<le> 0" "(0::real) \<le> 1" by simp_all
  note t = blit_zoom_window [OF h1 h2, of exTexture 640 360]
  from t have "zoom exZoom = 2 \<and> centerX exZoom = 1 / 2 \<and> centerY exZoom = 1 / 2 \<longrightarrow>
      zoomedUV exZoom (1, 0) = Some (1 / 4 + 1 / 2, 1 / 4 + 0 / 2)"
    by blast
  then have z: "zoomedUV exZoom (1, 0) = Some (3 / 4, 1 / 4)"
    by (simp add: exZoom_def)
  from t have "blit_fs_main exTexture (640, 360) exZoom (1, 0)
         = Some (exTexture
             (\<lfloor>clamp01 (centerX exZoom - (1 / zoom exZoom) / 2 + 1 * (1 / zoom exZoom)) * real 640\<rfloor>,
              \<lfloor>clamp01 (centerY exZoom - (1 / zoom exZoom) / 2 + 0 * (1 / zoom exZoom)) * real 360\<rfloor>))"
    by (elim conjE)
  then have f: "blit_fs_main exTexture (640, 360) exZoom (1, 0) = Some (480, 90, 0, 1)"
    by (simp add: exZoom_def exTexture_def clamp01_def)
  have g1: "0 < zoom exZoomEdge" by (simp add: exZoomEdge_def)
  have v: "centerX exZoomEdge - (1 / zoom exZoomEdge) / 2 + 1 * (1 / zoom exZoomEdge) = 115 / 100"
    "centerY exZoomEdge - (1 / zoom exZoomEdge) / 2 + 0 * (1 / zoom exZoomEdge) = 1 / 4"
    by (simp_all add: exZoomEdge_def)
  note t' = blit_zoom_window [OF g1 h2, of exTexture 640 360]
  from t' have e: "zoomedUV exZoomEdge (1, 0)
       = Some (clamp01 (centerX exZoomEdge - (1 / zoom exZoomEdge) / 2 + 1 * (1 / zoom exZoomEdge)),
               clamp01 (centerY exZoomEdge - (1 / zoom exZoomEdge) / 2 + 0 * (1 / zoom exZoomEdge)))"
    by (elim conjE)
  from t' have c: "\<forall>x. 0 \<le> clamp01 x \<and> clamp01 x \<le> 1 \<and> (0 \<le> x \<and> x \<le> 1 \<longrightarrow> clamp01 x = x)
            \<and> (x < 0 \<longrightarrow> clamp01 x = 0) \<and> (1 < x \<longrightarrow> clamp01 x = 1)"
    by (elim conjE)
  from c have "clamp01 (115 / 100) = 1" "clamp01 (1 / 4) = 1 / 4"
    by simp_all
  with e have s: "zoomedUV exZoomEdge (1, 0) = Some (1, 1 / 4)"
    unfolding v by simp
  from h1 h2 z f g1 v(1) s show ?thesis
    by (intro conjI)
qed

lemma edgeLoop_from:
  "edgeLoop textureSample uv i = (\<exists>j. i \<le> j \<and> j < 8 \<and> neighborDiffers textureSample uv j)"
proof (induction textureSample uv i rule: edgeLoop.induct)
  case (1 textureSample uv i)
  show ?case
  proof (cases "i < 8")
    case False
    then show ?thesis
      by (simp add: edgeLoop.simps [of textureSample uv i])
  next
    case True
    show ?thesis
    proof (cases "neighborDiffers textureSample uv i")
      case d: True
      with True have "edgeLoop textureSample uv i"
        by (simp add: edgeLoop.simps [of textureSample uv i])
      moreover from True d have "\<exists>j. i \<le> j \<and> j < 8 \<and> neighborDiffers textureSample uv j"
        by blast
      ultimately show ?thesis by simp
    next
      case d: False
      with True have "edgeLoop textureSample uv i = edgeLoop textureSample uv (i + 1)"
        by (simp add: edgeLoop.simps [of textureSample uv i])
      also have "\<dots> = (\<exists>j. i + 1 \<le> j \<and> j < 8 \<and> neighborDiffers textureSample uv j)"
        by (rule "1.IH" [OF True d])
      also have "\<dots> = (\<exists>j. i \<le> j \<and> j < 8 \<and> neighborDiffers textureSample uv j)"
      proof
        assume "\<exists>j. i + 1 \<le> j \<and> j < 8 \<and> neighborDiffers textureSample uv j"
        then obtain j where "i + 1 \<le> j" "j < 8" "neighborDiffers textureSample uv j" by blast
        then have "i \<le> j \<and> j < 8 \<and> neighborDiffers textureSample uv j" by simp
        then show "\<exists>j. i \<le> j \<and> j < 8 \<and> neighborDiffers textureSample uv j" ..
      next
        assume "\<exists>j. i \<le> j \<and> j < 8 \<and> neighborDiffers textureSample uv j"
        then obtain j where j: "i \<le> j" "j < 8" "neighborDiffers textureSample uv j" by blast
        with d have "j \<noteq> i" by auto
        with j have "i + 1 \<le> j \<and> j < 8 \<and> neighborDiffers textureSample uv j" by simp
        then show "\<exists>j. i + 1 \<le> j \<and> j < 8 \<and> neighborDiffers textureSample uv j" ..
      qed
      finally show ?thesis .
    qed
  qed
qed

text \<open>
  Claim C8 (as amended). A pixel of the outline pass is an edge exactly when one of the
  8 neighbour samples, at the offsets (cos a, sin a) * (1/1280, 1/720) * 0.7 for
  a = i * 6.28318 / 8, differs from the centre by more than 0.5 in the has-object channel
  or by more than 0.003 in the depth channel. An edge pixel outputs the opaque colour
  (0.003, 0.005, 0.01, 1), which replaces the texel of the main colour target. Any other
  pixel outputs (0, 0, 0, 0); under the pipeline's blend state this keeps the texel's red,
  green and blue and sets its alpha to 0. The pass loads the target.
\<close>

theorem outline_edge_detection:
  "edgeLoop textureSample uv 0 = (\<exists>i<8. neighborDiffers textureSample uv i)
   \<and> neighborDiffers textureSample uv i
       = (\<bar>channelG (textureSample uv)
            - channelG (textureSample
                (fst uv + cos (real i * (628318 / 100000) / 8) * (1 / 1280) * (7 / 10),
                 snd uv + sin (real i * (628318 / 100000) / 8) * (1 / 720) * (7 / 10)))\<bar> > 1 / 2
          \<or> \<bar>channelB (textureSample uv)
            - channelB (textureSample
                (fst uv + cos (real i * (628318 / 100000) / 8) * (1 / 1280) * (7 / 10),
                 snd uv + sin (real i * (628318 / 100000) / 8) * (1 / 720) * (7 / 10)))\<bar> > 3 / 1000)
   \<and> outline_fs_main textureSample uv
       = (if \<exists>i<8. neighborDiffers textureSample uv i
          then (3 / 1000, 5 / 1000, 1 / 100, 1) else (0, 0, 0, 0))
   \<and> outlineCompose textureSample uv (dr, dg, db, da)
       = (if \<exists>i<8. neighborDiffers textureSample uv i
          then (3 / 1000, 5 / 1000, 1 / 100, 1) else (dr, dg, db, 0))
   \<and> colorLoadOp renderOutlineComposePass = Load"
proof -
  have e: "edgeLoop textureSample uv 0 = (\<exists>i<8. neighborDiffers textureSample uv i)"
    by (simp add: edgeLoop_from)
  have n: "neighborDiffers textureSample uv i
       = (\<bar>channelG (textureSample uv)
            - channelG (textureSample
                (fst uv + cos (real i * (628318 / 100000) / 8) * (1 / 1280) * (7 / 10),
                 snd uv + sin (real i * (628318 / 100000) / 8) * (1 / 720) * (7 / 10)))\<bar> > 1 / 2
          \<or> \<bar>channelB (textureSample uv)
            - channelB (textureSample
                (fst uv + cos (real i * (628318 / 100000) / 8) * (1 / 1280) * (7 / 10),
                 snd uv + sin (real i * (628318 / 100000) / 8) * (1 / 720) * (7 / 10)))\<bar> > 3 / 1000)"
    unfolding neighborDiffers_def outlineOffset_def Let_def fst_conv snd_conv ..
  have f: "outline_fs_main textureSample uv
       = (if \<exists>i<8. neighborDiffers textureSample uv i
          then (3 / 1000, 5 / 1000, 1 / 100, 1) else (0, 0, 0, 0))"
    unfolding outline_fs_main_def e ..
  have c: "outlineCompose textureSample uv (dr, dg, db, da)
       = (if \<exists>i<8. neighborDiffers textureSample uv i
          then (3 / 1000, 5 / 1000, 1 / 100, 1) else (dr, dg, db, 0))"
    unfolding outlineCompose_def f by simp
  have l: "colorLoadOp renderOutlineComposePass = Load"
    by (simp add: renderOutlineComposePass_def)
  from e n f c l show ?thesis
    by (intro conjI)
qed

text \<open>
  Witness for C8: at the boundary of the example silhouette the first neighbour lies on
  the object, so the pixel is an edge and takes the outline colour.
\<close>

theorem outline_edge_detection_witness:
  "neighborDiffers exSilhouette (1 / 2, 1 / 2) 0
   \<and> edgeLoop exSilhouette (1 / 2, 1 / 2) 0
   \<and> outlineCompose exSilhouette (1 / 2, 1 / 2) (1 / 100000, 3 / 10000, 5 / 10000, 1)
       = (3 / 1000, 5 / 1000, 1 / 100, 1)"
proof -
  have d: "neighborDiffers exSilhouette (1 / 2, 1 / 2) 0"
    by (simp add: neighborDiffers_def outlineOffset_def exSilhouette_def Let_def)
  then have ex: "\<exists>i<8. neighborDiffers exSilhouette (1 / 2, 1 / 2) i"
    by (intro exI [of _ 0]) simp
  note t = outline_edge_detection [of exSilhouette "(1 / 2, 1 / 2)" 0
      "1 / 100000" "3 / 10000" "5 / 10000" 1]
  from t ex have e: "edgeLoop exSilhouette (1 / 2, 1 / 2) 0"
    by blast
  from t have "outlineCompose exSilhouette (1 / 2, 1 / 2) (1 / 100000, 3 / 10000, 5 / 10000, 1)
       = (if \<exists>i<8. neighborDiffers exSilhouette (1 / 2, 1 / 2) i
          then (3 / 1000, 5 / 1000, 1 / 100, 1) else (1 / 100000, 3 / 10000, 5 / 10000, 0))"
    by (elim conjE)
  with ex have c: "outlineCompose exSilhouette (1 / 2, 1 / 2) (1 / 100000, 3 / 10000, 5 / 10000, 1)
       = (3 / 1000, 5 / 1000, 1 / 100, 1)"
    by simp
  from d e c show ?thesis
    by (intro conjI)
qed

text \<open>
  Counterexample to C8 as stated: a pixel far from the boundary is not an edge, yet the
  pass changes the texel the main pass left (its clear colour, alpha 1): the alpha
  becomes 0.
\<close>

theorem outline_nonedge_counterexample:
  "\<not> edgeLoop exSilhouette (1 / 4, 1 / 2) 0
   \<and> outline_fs_main exSilhouette (1 / 4, 1 / 2) = (0, 0, 0, 0)
   \<and> outlineCompose exSilhouette (1 / 4, 1 / 2) (1 / 100000, 3 / 10000, 5 / 10000, 1)
       = (1 / 100000, 3 / 10000, 5 / 10000, 0)
   \<and> outlineCompose exSilhouette (1 / 4, 1 / 2) (1 / 100000, 3 / 10000, 5 / 10000, 1)
       \<noteq> (1 / 100000, 3 / 10000, 5 / 10000, 1)"
proof -
  have off: "\<bar>fst (outlineOffset i)\<bar> \<le> 1 / 1000" for i
  proof -
    have "\<bar>cos (real i * (628318 / 100000) / 8) * (7 / 12800)\<bar>
        = \<bar>cos (real i * (628318 / 100000) / 8)\<bar> * (7 / 12800)"
      by (simp add: abs_mult)
    also have "\<dots> \<le> 1 * (7 / 12800)"
      by (intro mult_right_mono) simp_all
    finally show ?thesis
      by (simp add: outlineOffset_def Let_def)
  qed
  have same: "exSilhouette (1 / 4 + fst (outlineOffset i), y) = (0, 0, 1 / 2, 1)" for i y
    using off [of i] by (simp add: exSilhouette_def abs_le_iff)
  have nd: "\<not> neighborDiffers exSilhouette (1 / 4, 1 / 2) i" for i
    using same [of i] by (simp add: neighborDiffers_def Let_def exSilhouette_def)
  then have e: "\<not> edgeLoop exSilhouette (1 / 4, 1 / 2) 0"
    by (simp add: edgeLoop_from)
  then have f: "outline_fs_main exSilhouette (1 / 4, 1 / 2) = (0, 0, 0, 0)"
    by (simp add: outline_fs_main_def)
  then have c: "outlineCompose exSilhouette (1 / 4, 1 / 2) (1 / 100000, 3 / 10000, 5 / 10000, 1)
       = (1 / 100000, 3 / 10000, 5 / 10000, 0)"
    by (simp add: outlineCompose_def)
  then have "outlineCompose exSilhouette (1 / 4, 1 / 2) (1 / 100000, 3 / 10000, 5 / 10000, 1)
       \<noteq> (1 / 100000, 3 / 10000, 5 / 10000, 1)"
    by simp
  with e f c show ?thesis
    by (intro conjI)
qed

subsection \<open>Claim on layer filtering\<close>

text \<open>
  Claim C4. For non-null colliders a and b, \<open>shouldCollideWith\<close> is true exactly when
  a's layer meets b's mask and b's layer meets a's mask. Hence the relation is symmetric,
  a collider whose layer is None collides with nothing (on either side), and a collider
  whose mask is All collides with b exactly when b's layer is nonzero and b's mask meets
  a's layer.
\<close>

theorem shouldCollideWith_layers:
  "(shouldCollideWith a (Some b) =
      (collisionLayer a AND collisionMask b \<noteq> 0 \<and> collisionLayer b AND collisionMask a \<noteq> 0))
   \<and> shouldCollideWith a (Some b) = shouldCollideWith b (Some a)
   \<and> shouldCollideWith (a\<lparr>collisionLayer := LayerNone\<rparr>) (Some b) = False
   \<and> shouldCollideWith b (Some (a\<lparr>collisionLayer := LayerNone\<rparr>)) = False
   \<and> shouldCollideWith (a\<lparr>collisionMask := LayerAll\<rparr>) (Some b) =
       (collisionLayer b \<noteq> 0 \<and> collisionLayer a AND collisionMask b \<noteq> 0)"
proof -
  have iff: "shouldCollideWith a (Some b) =
     (collisionLayer a AND collisionMask b \<noteq> 0 \<and> collisionLayer b AND collisionMask a \<noteq> 0)"
    by (simp add: shouldCollideWith_def)
  have sym: "shouldCollideWith a (Some b) = shouldCollideWith b (Some a)"
    by (auto simp add: shouldCollideWith_def)
  have none1: "shouldCollideWith (a\<lparr>collisionLayer := LayerNone\<rparr>) (Some b) = False"
    by (simp add: shouldCollideWith_def LayerNone_def)
  have none2: "shouldCollideWith b (Some (a\<lparr>collisionLayer := LayerNone\<rparr>)) = False"
    by (simp add: shouldCollideWith_def LayerNone_def)
  have minus1: "LayerAll = - 1"
    by (simp add: LayerAll_def)
  have all: "w AND LayerAll = w" for w :: "32 word"
    by (simp add: minus1)
  have mask: "shouldCollideWith (a\<lparr>collisionMask := LayerAll\<rparr>) (Some b) =
     (collisionLayer b \<noteq> 0 \<and> collisionLayer a AND collisionMask b \<noteq> 0)"
    by (auto simp add: shouldCollideWith_def all)
  from iff sym none1 none2 mask show ?thesis
    by blast
qed

end
